theory Spec2Isabelle
  imports Main "HOL-Library.Sublist" "HOL-Library.AList"
begin

section \<open>Python strings\<close>

text \<open>
  A Python \<open>str\<close> is modelled as a \<open>string\<close>; one \<open>char\<close> stands for one code point,
  so the model covers the texts whose code points are below 256. \<open>len\<close> is \<open>length\<close>,
  \<open>s[:n]\<close> is \<open>take n s\<close>, \<open>s[n:]\<close> is \<open>drop n s\<close> and \<open>+\<close> is \<open>@\<close>.
\<close>

definition isspace :: "char \<Rightarrow> bool" where
  \<comment> \<open>\<open>str.isspace\<close> on one code point below 256: TAB..CR, FS..US, space, NEL, NBSP\<close>
  "isspace c =
     (let n = (of_char c :: nat)
      in (9 \<le> n \<and> n \<le> 13) \<or> (28 \<le> n \<and> n \<le> 32) \<or> n = 133 \<or> n = 160)"

definition lstrip :: "string \<Rightarrow> string" where
  "lstrip s = dropWhile isspace s"

definition rstrip :: "string \<Rightarrow> string" where
  "rstrip s = rev (dropWhile isspace (rev s))"

definition strip :: "string \<Rightarrow> string" where
  \<comment> \<open>\<open>s.strip()\<close>\<close>
  "strip s = rstrip (lstrip s)"

definition lower_char :: "char \<Rightarrow> char" where
  \<comment> \<open>\<open>str.lower\<close> on one code point below 256: A..Z and the Latin-1 capitals move by 32\<close>
  "lower_char c =
     (let n = (of_char c :: nat)
      in if (65 \<le> n \<and> n \<le> 90) \<or> (192 \<le> n \<and> n \<le> 222 \<and> n \<noteq> 215)
         then char_of (n + 32) else c)"

definition lower :: "string \<Rightarrow> string" where
  \<comment> \<open>\<open>s.lower()\<close>\<close>
  "lower s = map lower_char s"

definition startswith :: "string \<Rightarrow> string \<Rightarrow> bool" where
  \<comment> \<open>\<open>s.startswith(p)\<close>\<close>
  "startswith s p = (take (length p) s = p)"

definition endswith :: "string \<Rightarrow> string \<Rightarrow> bool" where
  \<comment> \<open>\<open>s.endswith(p)\<close>\<close>
  "endswith s p = (length p \<le> length s \<and> drop (length s - length p) s = p)"

fun str_nat :: "nat \<Rightarrow> string" where
  \<comment> \<open>\<open>str(n)\<close> of a non-negative integer: its decimal digits\<close>
  "str_nat n =
     (if n < 10 then [''0123456789'' ! n]
      else str_nat (n div 10) @ [''0123456789'' ! (n mod 10)])"

section \<open>Exceptions\<close>

text \<open>
  The handlers raise \<open>HTTPException(status_code, detail)\<close>. Every other exception comes out
  of a library call; it is known by its class, as far as a handler tells classes apart
  (\<open>json.JSONDecodeError\<close> against the rest of \<open>Exception\<close>), and by \<open>str(e)\<close>.
\<close>

datatype http_exception = HTTPException (status_code: nat) (detail: string)

datatype lib_exception = JSONDecodeError string | OtherException string

fun str_e :: "lib_exception \<Rightarrow> string" where
  "str_e (JSONDecodeError m) = m"
| "str_e (OtherException m) = m"

section \<open>The response cleaning and the truncation of \<open>analyze_document_with_gemini\<close>\<close>

definition limited_text :: "string \<Rightarrow> string" where
  \<comment> \<open>\<open>text[:25000] if len(text) > 25000 else text\<close>\<close>
  "limited_text text = (if length text > 25000 then take 25000 text else text)"

definition strip_json_fence :: "string \<Rightarrow> string" where
  \<comment> \<open>\<open>if response_text.startswith('```json'): response_text = response_text[7:]\<close>\<close>
  "strip_json_fence r = (if startswith r ''```json'' then drop 7 r else r)"

definition strip_open_fence :: "string \<Rightarrow> string" where
  \<comment> \<open>\<open>if response_text.startswith('```'): response_text = response_text[3:]\<close>\<close>
  "strip_open_fence r = (if startswith r ''```'' then drop 3 r else r)"

definition strip_close_fence :: "string \<Rightarrow> string" where
  \<comment> \<open>\<open>if response_text.endswith('```'): response_text = response_text[:-3]\<close>\<close>
  "strip_close_fence r = (if endswith r ''```'' then take (length r - 3) r else r)"

definition clean_response :: "string \<Rightarrow> string" where
  \<comment> \<open>from \<open>response.text.strip()\<close> to the argument of \<open>json.loads\<close>: the three tests run
      one after the other, each on the text the one before left\<close>
  "clean_response reply =
     strip (strip_close_fence (strip_open_fence (strip_json_fence (strip reply))))"

section \<open>Parsed JSON and the analysis record\<close>

text \<open>
  What \<open>json.loads\<close> returns: a dict (its items, one per key), a list, a string, a number,
  a boolean or \<open>None\<close>. A float is kept as its literal.
\<close>

datatype json =
    JNull
  | JBool bool
  | JInt int
  | JFloat string
  | JStr string
  | JArr "json list"
  | JObj "(string \<times> json) list"

fun dict_get :: "json \<Rightarrow> string \<Rightarrow> json \<Rightarrow> json option" where
  \<comment> \<open>\<open>analysis_data.get(key, default)\<close>; \<open>None\<close> is the AttributeError of a value that
      is not a dict\<close>
  "dict_get (JObj items) k d = Some (case map_of items k of None \<Rightarrow> d | Some v \<Rightarrow> v)"
| "dict_get _ k d = None"

text \<open>\<open>class DocumentAnalysis(BaseModel)\<close>; a \<open>Dict[str, str]\<close> is the list of its items.\<close>

record DocumentAnalysis =
  summary :: string
  key_clauses :: "(string \<times> string) list list"
  obligations :: "(string \<times> string) list list"
  risks :: "(string \<times> string) list list"
  unusual_terms :: "(string \<times> string) list list"

section \<open>The environment of the handlers\<close>

text \<open>
  The libraries and the process configuration are parameters of the model:
  \<^item> \<open>GEMINI_API_KEY\<close>: the module constant read from the environment (empty when unset);
  \<^item> \<open>generate_content prompt\<close>: what
    \<open>genai.GenerativeModel('gemini-1.5-flash').generate_content(prompt).text\<close> does, an
    exception or the reply text;
  \<^item> \<open>json_loads\<close>: \<open>json.loads\<close>;
  \<^item> \<open>validate\<close>: the pydantic validation in the constructor of \<open>DocumentAnalysis\<close>, on the
    five values passed (\<open>None\<close> is its ValidationError);
  \<^item> \<open>pdf_reader\<close>: \<open>PyPDF2.PdfReader(io.BytesIO(content)).pages\<close>, an exception or, for each
    page in order, what \<open>page.extract_text()\<close> does;
  \<^item> \<open>strftime_now\<close>: \<open>datetime.now().strftime('%Y%m%d_%H%M%S')\<close>; \<open>isoformat_now\<close>:
    \<open>datetime.now().isoformat()\<close>; \<open>py_hash\<close>: the builtin \<open>hash\<close> on strings.
\<close>

type_synonym bytes = "nat list"

record env =
  GEMINI_API_KEY :: string
  generate_content :: "string \<Rightarrow> lib_exception + string"
  json_loads :: "string \<Rightarrow> lib_exception + json"
  validate :: "json \<Rightarrow> json \<Rightarrow> json \<Rightarrow> json \<Rightarrow> json \<Rightarrow> DocumentAnalysis option"
  pdf_reader :: "bytes \<Rightarrow> lib_exception + (lib_exception + string) list"
  strftime_now :: string
  isoformat_now :: string
  py_hash :: "string \<Rightarrow> int"

section \<open>\<open>analyze_document_with_gemini\<close>\<close>

definition analysis_prompt_head :: string where
  \<open>analysis_prompt_head = ''\<newline>        You are a legal document analyzer. Analyze this document and respond with ONLY valid JSON in the exact format specified.\<newline>\<newline>        Document Text:\<newline>        ''\<close>

definition analysis_prompt_tail :: string where
  \<open>analysis_prompt_tail = ''\<newline>\<newline>        Respond with valid JSON only (no markdown, no explanations):\<newline>        {\<newline>            "summary": "Brief explanation of the document's purpose and main points",\<newline>            "key_clauses": [\<newline>                {"clause": "Clause name", "explanation": "Simple explanation", "location": "Section reference"}\<newline>            ],\<newline>            "obligations": [\<newline>                {"party": "Who", "obligation": "What they must do", "consequence": "Result of non-compliance"}\<newline>            ],\<newline>            "risks": [\<newline>                {"type": "Financial", "description": "Risk description", "severity": "High"}\<newline>            ],\<newline>            "unusual_terms": [\<newline>                {"term": "Term name", "explanation": "Why unusual", "recommendation": "What to do"}\<newline>            ]\<newline>        }\<newline>        ''\<close>

definition analysis_prompt :: "string \<Rightarrow> string" where
  \<comment> \<open>the f-string of the source, with \<open>{limited_text}\<close> filled in\<close>
  "analysis_prompt text = analysis_prompt_head @ limited_text text @ analysis_prompt_tail"

definition parse_fallback :: DocumentAnalysis where
  \<comment> \<open>the record returned from \<open>except json.JSONDecodeError\<close>\<close>
  "parse_fallback = \<lparr>
     summary = ''The document has been processed. The AI analysis is available through the chat feature.'',
     key_clauses = [[(''clause'', ''Document Processed''),
                     (''explanation'', ''Use the chat feature to ask about specific clauses''),
                     (''location'', ''Throughout document'')]],
     obligations = [[(''party'', ''Document parties''),
                     (''obligation'', ''Refer to original document''),
                     (''consequence'', ''Use chat for specific details'')]],
     risks = [[(''type'', ''General''),
               (''description'', ''Use chat to identify specific risks''),
               (''severity'', ''Medium'')]],
     unusual_terms = [[(''term'', ''Various''),
                       (''explanation'', ''Chat with AI to identify unusual terms''),
                       (''recommendation'', ''Review document carefully'')]] \<rparr>"

definition infra_fallback :: DocumentAnalysis where
  \<comment> \<open>the record returned from the outer \<open>except Exception\<close>\<close>
  "infra_fallback = \<lparr>
     summary = ''Document uploaded successfully. AI analysis encountered an issue, but you can still chat about the document.'',
     key_clauses = [[(''clause'', ''Upload Successful''),
                     (''explanation'', ''Document processed, use chat for analysis''),
                     (''location'', ''N/A'')]],
     obligations = [[(''party'', ''User''),
                     (''obligation'', ''Use chat feature for detailed analysis''),
                     (''consequence'', ''Limited automated analysis'')]],
     risks = [[(''type'', ''Technical''),
               (''description'', ''AI analysis partially unavailable''),
               (''severity'', ''Low'')]],
     unusual_terms = [[(''term'', ''Processing''),
                       (''explanation'', ''Use chat feature for detailed term analysis''),
                       (''recommendation'', ''Ask specific questions'')]] \<rparr>"

definition build_analysis :: "env \<Rightarrow> json \<Rightarrow> DocumentAnalysis option" where
  \<comment> \<open>\<open>DocumentAnalysis(summary=analysis_data.get("summary", ...), ...)\<close>; \<open>None\<close> is an
      exception that is not a JSONDecodeError (AttributeError, ValidationError)\<close>
  "build_analysis e analysis_data =
     (case dict_get analysis_data ''summary'' (JStr ''Document analysis completed.'') of
        None \<Rightarrow> None
      | Some s \<Rightarrow>
     (case dict_get analysis_data ''key_clauses'' (JArr []) of
        None \<Rightarrow> None
      | Some kc \<Rightarrow>
     (case dict_get analysis_data ''obligations'' (JArr []) of
        None \<Rightarrow> None
      | Some ob \<Rightarrow>
     (case dict_get analysis_data ''risks'' (JArr []) of
        None \<Rightarrow> None
      | Some ri \<Rightarrow>
     (case dict_get analysis_data ''unusual_terms'' (JArr []) of
        None \<Rightarrow> None
      | Some ut \<Rightarrow> validate e s kc ob ri ut)))))"

definition parse_analysis :: "env \<Rightarrow> string \<Rightarrow> DocumentAnalysis" where
  \<comment> \<open>from the reply text to the record returned: the inner \<open>try\<close> with its
      \<open>except json.JSONDecodeError\<close>, inside the outer \<open>except Exception\<close>\<close>
  "parse_analysis e reply =
     (case json_loads e (clean_response reply) of
        Inl (JSONDecodeError m) \<Rightarrow> parse_fallback
      | Inl (OtherException m) \<Rightarrow> infra_fallback
      | Inr analysis_data \<Rightarrow>
          (case build_analysis e analysis_data of
             None \<Rightarrow> infra_fallback
           | Some a \<Rightarrow> a))"

definition analyze_document_with_gemini ::
  "env \<Rightarrow> string \<Rightarrow> (http_exception + DocumentAnalysis) \<times> string list" where
  \<comment> \<open>the result (\<open>Inl\<close>: the HTTPException raised) and the prompts sent to the model\<close>
  "analyze_document_with_gemini e text =
     (if GEMINI_API_KEY e = []
      then (Inl (HTTPException 500
              ''Gemini API key not configured. Please set GEMINI_API_KEY in your environment variables.''), [])
      else
        (case generate_content e (analysis_prompt text) of
           Inl ex \<Rightarrow> (Inr infra_fallback, [analysis_prompt text])
         | Inr reply \<Rightarrow> (Inr (parse_analysis e reply), [analysis_prompt text])))"

section \<open>\<open>extract_text_from_pdf\<close>\<close>

fun extract_pages :: "(lib_exception + string) list \<Rightarrow> string \<Rightarrow> string" where
  \<comment> \<open>the \<open>for\<close> loop over the pages, from the text accumulated so far\<close>
  "extract_pages [] text = text"
| "extract_pages (Inr page_text # pages) text =
     extract_pages pages (text @ page_text @ ''\<newline>'')"
| "extract_pages (Inl ex # pages) text = extract_pages pages text"

definition no_text_message :: string where
  "no_text_message =
     ''No text could be extracted from the PDF. The file might be image-based or corrupted.''"

definition extract_text_from_pdf :: "env \<Rightarrow> bytes \<Rightarrow> http_exception + string" where
  "extract_text_from_pdf e file_content =
     (case pdf_reader e file_content of
        Inl ex \<Rightarrow> Inl (HTTPException 400 (''Error extracting text from PDF: '' @ str_e ex))
      | Inr pages \<Rightarrow>
          (let text = extract_pages pages [];
               extracted_length = length (strip text)
           in if extracted_length = 0
              then Inl (HTTPException 400 (''Error extracting text from PDF: '' @ no_text_message))
              else Inr (strip text)))"

section \<open>The document store and \<open>upload_document\<close>\<close>

text \<open>
  \<open>document_store\<close> is a dict: the list of its items in insertion order. An assignment
  \<open>document_store[k] = v\<close> is \<open>AList.update k v\<close>, \<open>del document_store[k]\<close> is
  \<open>AList.delete k\<close>, \<open>k in document_store\<close> is \<open>map_of ds k \<noteq> None\<close> and
  \<open>not document_store\<close> is \<open>ds = []\<close>.
\<close>

record StoredDocument =
  doc_text :: string
  doc_filename :: string
  doc_upload_time :: string
  doc_file_size :: nat

type_synonym document_store = "(string \<times> StoredDocument) list"

text \<open>The uploaded file: \<open>file.filename\<close> and what \<open>await file.read()\<close> does.\<close>

record UploadFile =
  filename :: "string option"
  read :: "lib_exception + bytes"

text \<open>The dict returned by a successful upload.\<close>

record upload_result =
  res_document_id :: string
  res_filename :: string
  res_analysis :: DocumentAnalysis
  res_text_length :: nat

datatype upload_exception = Http http_exception | Unexpected lib_exception

definition make_doc_id :: "env \<Rightarrow> string \<Rightarrow> string" where
  \<comment> \<open>\<open>f"doc_{datetime.now().strftime(...)}_{abs(hash(document_text[:1000])) % 10000}"\<close>\<close>
  "make_doc_id e document_text =
     ''doc_'' @ strftime_now e @ ''_''
       @ str_nat (nat (abs (py_hash e (take 1000 document_text))) mod 10000)"

definition upload_try ::
  "env \<Rightarrow> UploadFile \<Rightarrow> document_store \<Rightarrow>
     (upload_exception + upload_result) \<times> document_store \<times> string option \<times> string list" where
  \<comment> \<open>the body of the \<open>try\<close>: what it returns or raises, the store it leaves, the local
      \<open>doc_id\<close> if it was bound, and the prompts sent to the model\<close>
  "upload_try e file ds =
     (case filename file of
        None \<Rightarrow> (Inl (Http (HTTPException 400 ''No file selected'')), ds, None, [])
      | Some fname \<Rightarrow>
          if fname = [] then (Inl (Http (HTTPException 400 ''No file selected'')), ds, None, [])
          else if \<not> endswith (lower fname) ''.pdf''
          then (Inl (Http (HTTPException 400 ''Only PDF files are supported'')), ds, None, [])
          else
            (case read file of
               Inl ex \<Rightarrow> (Inl (Unexpected ex), ds, None, [])
             | Inr content \<Rightarrow>
                 (let file_size = length content
                  in if file_size = 0
                     then (Inl (Http (HTTPException 400 ''The uploaded file is empty'')), ds, None, [])
                     else if file_size > 10 * 1024 * 1024
                     then (Inl (Http (HTTPException 400 ''File size must be less than 10MB'')),
                           ds, None, [])
                     else
                       (case extract_text_from_pdf e content of
                          Inl h \<Rightarrow> (Inl (Http h), ds, None, [])
                        | Inr document_text \<Rightarrow>
                            if length (strip document_text) < 50
                            then (Inl (Http (HTTPException 400
                                    ''Document appears to contain insufficient text. Please ensure the PDF contains readable text (not just images).'')),
                                  ds, None, [])
                            else
                              (let doc_id = make_doc_id e document_text;
                                   ds' = AList.update doc_id
                                           \<lparr> doc_text = document_text,
                                             doc_filename = fname,
                                             doc_upload_time = isoformat_now e,
                                             doc_file_size = file_size \<rparr> ds
                               in case analyze_document_with_gemini e document_text of
                                    (Inl h, calls) \<Rightarrow> (Inl (Http h), ds', Some doc_id, calls)
                                  | (Inr analysis, calls) \<Rightarrow>
                                      (Inr \<lparr> res_document_id = doc_id,
                                             res_filename = fname,
                                             res_analysis = analysis,
                                             res_text_length = length document_text \<rparr>,
                                       ds', Some doc_id, calls))))))"

definition cleanup :: "string option \<Rightarrow> document_store \<Rightarrow> document_store" where
  \<comment> \<open>\<open>if 'doc_id' in locals() and doc_id in document_store: del document_store[doc_id]\<close>\<close>
  "cleanup doc_id ds =
     (case doc_id of
        None \<Rightarrow> ds
      | Some d \<Rightarrow> if map_of ds d \<noteq> None then AList.delete d ds else ds)"

definition upload_document ::
  "env \<Rightarrow> UploadFile \<Rightarrow> document_store \<Rightarrow>
     (http_exception + upload_result) \<times> document_store \<times> string list" where
  \<comment> \<open>the handler: its response (\<open>Inl\<close>: the HTTPException raised), the store it leaves and
      the prompts sent to the model\<close>
  "upload_document e file ds =
     (case upload_try e file ds of
        (Inr result, ds', doc_id, calls) \<Rightarrow> (Inr result, ds', calls)
      | (Inl (Http h), ds', doc_id, calls) \<Rightarrow> (Inl h, ds', calls)
      | (Inl (Unexpected ex), ds', doc_id, calls) \<Rightarrow>
          (Inl (HTTPException 500
             (''An unexpected error occurred while processing your document. Please try again. Error: ''
                @ str_e ex)),
           cleanup doc_id ds', calls))"

section \<open>\<open>chat_with_document\<close>\<close>

record ChatMessage =
  message :: string
  document_id :: "string option"
  document_text :: "string option"

record ChatResponse =
  response :: string
  timestamp :: string

definition truthy :: "string option \<Rightarrow> string option" where
  \<comment> \<open>the value of an \<open>Optional[str]\<close> that passes \<open>if value:\<close>: neither \<open>None\<close> nor empty\<close>
  "truthy v = (case v of None \<Rightarrow> None | Some s \<Rightarrow> if s = [] then None else Some s)"

definition chat_prompt_head :: string where
  "chat_prompt_head =
     ''You are analyzing a legal document. Answer the following question about it:\<newline>\<newline>Document: ''"

definition chat_prompt_question :: string where
  "chat_prompt_question = ''\<newline>\<newline>Question: ''"

definition chat_prompt_tail :: string where
  "chat_prompt_tail =
     ''\<newline>\<newline>Please provide a clear and concise answer based on the document content.''"

definition chat_prompt :: "string \<Rightarrow> string \<Rightarrow> string" where
  \<comment> \<open>the f-string of the source; its document expression is the one of \<open>limited_text\<close>\<close>
  "chat_prompt doc msg =
     chat_prompt_head @ limited_text doc @ chat_prompt_question @ msg @ chat_prompt_tail"

definition storage_unavailable_reply :: string where
  "storage_unavailable_reply =
     ''The document storage system is not available. Please try uploading your document again.''"

definition not_found_reply :: string where
  "not_found_reply =
     ''I couldn't find the document you're referring to. Please try uploading your document again.''"

definition upload_first_reply :: string where
  "upload_first_reply = ''Please upload a document first before asking questions.''"

definition chat_generate :: "env \<Rightarrow> string \<Rightarrow> string \<Rightarrow> ChatResponse \<times> string list" where
  \<comment> \<open>from the document text on: the prompt, the call and the \<open>except Exception\<close>\<close>
  "chat_generate e doc msg =
     (let prompt = chat_prompt doc msg
      in case generate_content e prompt of
           Inl ex \<Rightarrow>
             (\<lparr> response =
                  ''I encountered an error while processing your question. Please try again. Error: ''
                    @ str_e ex,
                timestamp = isoformat_now e \<rparr>, [prompt])
         | Inr reply \<Rightarrow> (\<lparr> response = strip reply, timestamp = isoformat_now e \<rparr>, [prompt]))"

definition chat_with_document ::
  "env \<Rightarrow> ChatMessage \<Rightarrow> document_store \<Rightarrow> (http_exception + ChatResponse) \<times> string list" where
  \<comment> \<open>the handler: its response (\<open>Inr\<close>: the ChatResponse returned with HTTP 200) and the
      prompts sent to the model\<close>
  "chat_with_document e chat_request ds =
     (if GEMINI_API_KEY e = []
      then (Inl (HTTPException 500 ''Gemini API key not configured''), [])
      else
        (case truthy (document_id chat_request) of
           Some d \<Rightarrow>
             if ds = []
             then (Inr \<lparr> response = storage_unavailable_reply, timestamp = isoformat_now e \<rparr>, [])
             else
               (case map_of ds d of
                  None \<Rightarrow> (Inr \<lparr> response = not_found_reply, timestamp = isoformat_now e \<rparr>, [])
                | Some doc_data \<Rightarrow>
                    (case chat_generate e (doc_text doc_data) (message chat_request) of
                       (r, calls) \<Rightarrow> (Inr r, calls)))
         | None \<Rightarrow>
             (case truthy (document_text chat_request) of
                Some t \<Rightarrow>
                  (case chat_generate e t (message chat_request) of
                     (r, calls) \<Rightarrow> (Inr r, calls))
              | None \<Rightarrow>
                  (Inr \<lparr> response = upload_first_reply, timestamp = isoformat_now e \<rparr>, []))))"

section \<open>\<open>get_document_info\<close>\<close>

record document_info =
  info_document_id :: string
  info_filename :: string
  info_upload_time :: string
  info_text_length :: nat
  info_text_preview :: string

definition get_document_info :: "document_store \<Rightarrow> string \<Rightarrow> http_exception + document_info" where
  "get_document_info ds d =
     (case map_of ds d of
        None \<Rightarrow> Inl (HTTPException 404 ''Document not found'')
      | Some doc_info \<Rightarrow>
          Inr \<lparr> info_document_id = d,
                info_filename = doc_filename doc_info,
                info_upload_time = doc_upload_time doc_info,
                info_text_length = length (doc_text doc_info),
                info_text_preview =
                  (if length (doc_text doc_info) > 200
                   then take 200 (doc_text doc_info) @ ''...''
                   else doc_text doc_info) \<rparr>)"

section \<open>The cleaning as the specification words it\<close>

definition clean_response_spec :: "string \<Rightarrow> string" where
  \<comment> \<open>a leading \<open>```json\<close> is removed, otherwise a leading \<open>```\<close>; then a trailing \<open>```\<close>;
      all on the trimmed reply, and the result is trimmed\<close>
  "clean_response_spec reply =
     (let r = strip reply;
          r1 = (if startswith r ''```json'' then drop 7 r
                else if startswith r ''```'' then drop 3 r
                else r)
      in strip (strip_close_fence r1))"

section \<open>A concrete environment\<close>

text \<open>
  Stand-ins for the libraries, for running the handlers on concrete requests: a model that
  raises, one that answers in prose, one that answers with fenced JSON; a parser that knows
  one object; a validator that accepts a string summary with four empty lists; PDF readers
  for a two-page text document with one unreadable page, a document with too little text,
  a scanned document and a broken file.
\<close>

definition generate_raises :: "string \<Rightarrow> lib_exception + string" where
  "generate_raises prompt = Inl (OtherException ''429 quota exceeded'')"

definition generate_prose :: "string \<Rightarrow> lib_exception + string" where
  "generate_prose prompt = Inr ''Sorry, I cannot analyze this document.''"

definition generate_fenced :: "string \<Rightarrow> lib_exception + string" where
  \<open>generate_fenced prompt = Inr ''```json\<newline>{"summary": "Lease"}\<newline>```\<newline>''\<close>

definition example_json_loads :: "string \<Rightarrow> lib_exception + json" where
  \<open>example_json_loads s =
     (if s = ''{"summary": "Lease"}'' then Inr (JObj [(''summary'', JStr ''Lease'')])
      else Inl (JSONDecodeError ''Expecting value: line 1 column 1 (char 0)''))\<close>

fun example_validate ::
  "json \<Rightarrow> json \<Rightarrow> json \<Rightarrow> json \<Rightarrow> json \<Rightarrow> DocumentAnalysis option" where
  "example_validate (JStr s) (JArr []) (JArr []) (JArr []) (JArr []) =
     Some \<lparr> summary = s, key_clauses = [], obligations = [], risks = [], unusual_terms = [] \<rparr>"
| "example_validate _ _ _ _ _ = None"

definition lease_page :: string where
  "lease_page = ''This lease is made between the landlord and the tenant.''"

definition rent_page :: string where
  "rent_page = ''Rent is due monthly.''"

definition lease_text :: string where
  "lease_text =
     ''This lease is made between the landlord and the tenant.\<newline>Rent is due monthly.''"

definition lease_pdf_reader :: "bytes \<Rightarrow> lib_exception + (lib_exception + string) list" where
  "lease_pdf_reader content =
     Inr [Inr lease_page, Inl (OtherException ''unsupported font''), Inr rent_page]"

definition short_pdf_reader :: "bytes \<Rightarrow> lib_exception + (lib_exception + string) list" where
  "short_pdf_reader content = Inr [Inr ''  Page 1 of 1  '']"

definition scanned_pdf_reader :: "bytes \<Rightarrow> lib_exception + (lib_exception + string) list" where
  "scanned_pdf_reader content = Inr [Inr '' '', Inl (OtherException ''unsupported font'')]"

definition broken_pdf_reader :: "bytes \<Rightarrow> lib_exception + (lib_exception + string) list" where
  "broken_pdf_reader content = Inl (OtherException ''EOF marker not found'')"

definition example_hash :: "string \<Rightarrow> int" where
  "example_hash s = - int (length s)"

definition example_env :: env where
  "example_env = \<lparr>
     GEMINI_API_KEY = ''test-key'',
     generate_content = generate_fenced,
     json_loads = example_json_loads,
     validate = example_validate,
     pdf_reader = lease_pdf_reader,
     strftime_now = ''20240101_120000'',
     isoformat_now = ''2024-01-01T12:00:00'',
     py_hash = example_hash \<rparr>"

definition no_key_env :: env where
  \<comment> \<open>the same process started without \<open>GEMINI_API_KEY\<close>\<close>
  "no_key_env = example_env \<lparr> GEMINI_API_KEY := [] \<rparr>"

definition lease_upload :: UploadFile where
  "lease_upload = \<lparr> filename = Some ''Lease.PDF'', read = Inr [37, 80, 68, 70] \<rparr>"

definition lease_doc_id :: string where
  "lease_doc_id = ''doc_20240101_120000_76''"

definition lease_document :: StoredDocument where
  "lease_document = \<lparr>
     doc_text = lease_text,
     doc_filename = ''Lease.PDF'',
     doc_upload_time = ''2024-01-01T12:00:00'',
     doc_file_size = 4 \<rparr>"

definition rent_question :: ChatMessage where
  "rent_question = \<lparr> message = ''When is the rent due?'', document_id = None, document_text = None \<rparr>"

definition long_page :: string where
  "long_page = ''The tenant shall pay the rent on the first day of each month. The landlord shall keep the premises in good repair. Either party may end this lease with sixty days of written notice. Late rent bears interest at five percent per year.''"

definition long_pdf_reader :: "bytes \<Rightarrow> lib_exception + (lib_exception + string) list" where
  "long_pdf_reader content = Inr [Inr long_page]"

definition long_doc_id :: string where
  "long_doc_id = ''doc_20240101_120000_232''"

definition full_size_upload :: UploadFile where
  \<comment> \<open>a file of exactly 10 MiB\<close>
  "full_size_upload = \<lparr> filename = Some ''lease.pdf'', read = Inr (replicate 10485760 0) \<rparr>"

definition oversize_upload :: UploadFile where
  "oversize_upload = \<lparr> filename = Some ''lease.pdf'', read = Inr (replicate 10485761 0) \<rparr>"

definition empty_upload :: UploadFile where
  "empty_upload = \<lparr> filename = Some ''lease.pdf'', read = Inr [] \<rparr>"

definition word_upload :: UploadFile where
  "word_upload = \<lparr> filename = Some ''lease.docx'', read = Inr [80, 75, 3, 4] \<rparr>"

definition chat_document :: "ChatMessage \<Rightarrow> document_store \<Rightarrow> string option" where
  \<comment> \<open>the document a chat request is about: the stored text of a truthy \<open>document_id\<close>,
      else a truthy \<open>document_text\<close>\<close>
  "chat_document chat_request ds =
     (case truthy (document_id chat_request) of
        Some d \<Rightarrow> map_option doc_text (map_of ds d)
      | None \<Rightarrow> truthy (document_text chat_request))"

fun page_chunk :: "lib_exception + string \<Rightarrow> string" where
  \<comment> \<open>what one page adds to the text: its text and a newline, or nothing when it raises\<close>
  "page_chunk (Inr page_text) = page_text @ ''\<newline>''"
| "page_chunk (Inl ex) = []"

definition concat_pages :: "(lib_exception + string) list \<Rightarrow> string" where
  "concat_pages pages = concat (map page_chunk pages)"

definition filename_rejected :: "string option \<Rightarrow> bool" where
  \<comment> \<open>the filename is missing, or does not end in \<open>.pdf\<close> whatever the case of its letters\<close>
  "filename_rejected f =
     (case f of None \<Rightarrow> True | Some fname \<Rightarrow> fname = [] \<or> \<not> endswith (lower fname) ''.pdf'')"

section \<open>Trimming\<close>

lemma rstrip_take: "rstrip s = take (length s - length (takeWhile isspace (rev s))) s"
  by (simp add: rstrip_def dropWhile_eq_drop rev_drop)

lemma take_Cons_hd: "take k u = c # cs \<Longrightarrow> hd u = c"
  by (cases u; cases k) auto

lemma lstrip_rstrip_lstrip: "lstrip (rstrip (lstrip s)) = rstrip (lstrip s)"
proof (cases "rstrip (lstrip s)")
  case Nil
  then show ?thesis by (simp add: lstrip_def)
next
  case (Cons c cs)
  then have ne: "lstrip s \<noteq> []" by (auto simp: rstrip_def)
  then have "\<not> isspace (hd (lstrip s))"
    unfolding lstrip_def by (rule hd_dropWhile)
  moreover have "hd (lstrip s) = c"
    using Cons by (subst (asm) rstrip_take) (rule take_Cons_hd)
  ultimately have "\<not> isspace c" by simp
  with Cons show ?thesis by (simp add: lstrip_def)
qed

lemma strip_idem: "strip (strip s) = strip s"
  by (simp add: strip_def lstrip_rstrip_lstrip) (simp add: rstrip_def)

lemma limited_text_take: "limited_text text = take 25000 text"
  by (simp add: limited_text_def)

section \<open>The truncation budget\<close>

lemma analyze_calls:
  "snd (analyze_document_with_gemini e text) =
     (if GEMINI_API_KEY e = [] then [] else [analysis_prompt text])"
  by (simp add: analyze_document_with_gemini_def split: sum.splits)

lemma chat_generate_calls: "snd (chat_generate e doc msg) = [chat_prompt doc msg]"
  by (simp add: chat_generate_def Let_def split: sum.splits)

lemma chat_calls:
  "snd (chat_with_document e chat_request ds) =
     (if GEMINI_API_KEY e = [] \<or> (truthy (document_id chat_request) \<noteq> None \<and> ds = [])
      then []
      else case chat_document chat_request ds of
             None \<Rightarrow> []
           | Some doc \<Rightarrow> [chat_prompt doc (message chat_request)])"
proof -
  have g: "\<And>doc msg. (case chat_generate e doc msg of (r, calls) \<Rightarrow> (Inr r :: http_exception + ChatResponse, calls))
                = (Inr (fst (chat_generate e doc msg)), [chat_prompt doc msg])"
    using chat_generate_calls by (simp add: case_prod_beta)
  show ?thesis
    by (simp add: chat_with_document_def chat_document_def g split: option.splits)
qed

text \<open>
  C9. The prompts sent to the model: \<open>analyze_document_with_gemini\<close> sends, once the API key
  is configured, exactly one prompt, and \<open>chat_with_document\<close> sends exactly one whenever it
  has a document to talk about (none with the key unset, on an empty store asked by id, or
  with no document). Each prompt embeds, between its fixed parts, the document text cut to
  its first 25,000 characters: the text itself when it has at most 25,000 characters,
  exactly its first 25,000 characters when it is longer.
\<close>

theorem truncation_budget:
  "length (limited_text text) \<le> 25000
   \<and> (length text \<le> 25000 \<longrightarrow> limited_text text = text)
   \<and> (25000 < length text \<longrightarrow> limited_text text = take 25000 text \<and> length (limited_text text) = 25000)
   \<and> snd (analyze_document_with_gemini e text) =
        (if GEMINI_API_KEY e = [] then []
         else [analysis_prompt_head @ limited_text text @ analysis_prompt_tail])
   \<and> snd (chat_with_document e chat_request ds) =
        (if GEMINI_API_KEY e = [] \<or> (truthy (document_id chat_request) \<noteq> None \<and> ds = [])
         then []
         else case chat_document chat_request ds of
                None \<Rightarrow> []
              | Some doc \<Rightarrow>
                  [chat_prompt_head @ limited_text doc @ chat_prompt_question
                     @ message chat_request @ chat_prompt_tail])"
proof -
  have a: "length (limited_text text) \<le> 25000"
    by (simp add: limited_text_def)
  have b: "length text \<le> 25000 \<longrightarrow> limited_text text = text"
    by (simp add: limited_text_def)
  have c: "25000 < length text \<longrightarrow>
             limited_text text = take 25000 text \<and> length (limited_text text) = 25000"
    by (simp add: limited_text_def)
  have d: "snd (analyze_document_with_gemini e text) =
        (if GEMINI_API_KEY e = [] then []
         else [analysis_prompt_head @ limited_text text @ analysis_prompt_tail])"
    by (simp add: analyze_calls analysis_prompt_def)
  have e: "snd (chat_with_document e chat_request ds) =
        (if GEMINI_API_KEY e = [] \<or> (truthy (document_id chat_request) \<noteq> None \<and> ds = [])
         then []
         else case chat_document chat_request ds of
                None \<Rightarrow> []
              | Some doc \<Rightarrow>
                  [chat_prompt_head @ limited_text doc @ chat_prompt_question
                     @ message chat_request @ chat_prompt_tail])"
    by (auto simp: chat_calls chat_prompt_def split: option.splits)
  from a b c d e show ?thesis by blast
qed

theorem truncation_budget_witness:
  "length lease_text \<le> 25000
   \<and> limited_text lease_text = lease_text
   \<and> snd (analyze_document_with_gemini example_env lease_text)
       = [analysis_prompt_head @ lease_text @ analysis_prompt_tail]
   \<and> snd (chat_with_document example_env (rent_question \<lparr> document_text := Some lease_text \<rparr>) [])
       = [chat_prompt_head @ lease_text @ chat_prompt_question
            @ ''When is the rent due?'' @ chat_prompt_tail]
   \<and> 25000 < length (replicate 25001 (CHR ''x''))
   \<and> limited_text (replicate 25001 (CHR ''x'')) = replicate 25000 (CHR ''x'')
   \<and> snd (analyze_document_with_gemini example_env (replicate 25001 (CHR ''x'')))
       = [analysis_prompt_head @ replicate 25000 (CHR ''x'') @ analysis_prompt_tail]
   \<and> snd (chat_with_document example_env
             (rent_question \<lparr> document_text := Some (replicate 25001 (CHR ''x'')) \<rparr>) [])
       = [chat_prompt_head @ replicate 25000 (CHR ''x'') @ chat_prompt_question
            @ ''When is the rent due?'' @ chat_prompt_tail]
   \<and> snd (chat_with_document example_env
             (rent_question \<lparr> document_id := Some ''doc_1'' \<rparr>)
             [(''doc_1'', \<lparr> doc_text = replicate 25001 (CHR ''x''), doc_filename = ''x.pdf'',
                            doc_upload_time = ''2024-01-01T12:00:00'', doc_file_size = 4 \<rparr>)])
       = [chat_prompt_head @ replicate 25000 (CHR ''x'') @ chat_prompt_question
            @ ''When is the rent due?'' @ chat_prompt_tail]"
proof -
  let ?long = "replicate 25001 (CHR ''x'')"
  let ?req = "rent_question \<lparr> document_text := Some lease_text \<rparr>"
  let ?req2 = "rent_question \<lparr> document_text := Some ?long \<rparr>"
  let ?req3 = "rent_question \<lparr> document_id := Some ''doc_1'' \<rparr>"
  let ?ds3 = "[(''doc_1'', \<lparr> doc_text = ?long, doc_filename = ''x.pdf'',
                            doc_upload_time = ''2024-01-01T12:00:00'', doc_file_size = 4 \<rparr>)]"
  have k: "GEMINI_API_KEY example_env \<noteq> []"
    by (simp add: example_env_def)
  have h1: "length lease_text \<le> 25000"
    by (simp add: lease_text_def)
  have h2: "25000 < length ?long"
    by simp
  have n1: "truthy (document_id ?req) = None" and n2: "truthy (document_id ?req2) = None"
    by (simp_all add: truthy_def rent_question_def)
  have n3: "truthy (document_id ?req3) \<noteq> None" and s3: "?ds3 \<noteq> []"
    by (simp_all add: truthy_def)
  have doc: "chat_document ?req [] = Some lease_text"
    by (simp add: chat_document_def truthy_def rent_question_def lease_text_def)
  have doc2: "chat_document ?req2 [] = Some ?long"
    by (simp add: chat_document_def truthy_def rent_question_def)
  have doc3: "chat_document ?req3 ?ds3 = Some ?long"
    by (simp add: chat_document_def truthy_def)
  have msg: "message ?req = ''When is the rent due?''" "message ?req2 = ''When is the rent due?''"
    "message ?req3 = ''When is the rent due?''"
    by (simp_all add: rent_question_def)
  note short = truncation_budget [of lease_text example_env ?req "[]"]
  note long = truncation_budget [of ?long example_env ?req2 "[]"]
  note stored = truncation_budget [of ?long example_env ?req3 ?ds3]
  from short h1 have c1: "limited_text lease_text = lease_text"
    by blast
  from long h2 have c2: "limited_text ?long = replicate 25000 (CHR ''x'')"
    by simp
  from short k c1
  have a1: "snd (analyze_document_with_gemini example_env lease_text)
              = [analysis_prompt_head @ lease_text @ analysis_prompt_tail]"
    by simp
  from short k n1 doc msg c1
  have q1: "snd (chat_with_document example_env ?req [])
              = [chat_prompt_head @ lease_text @ chat_prompt_question
                   @ ''When is the rent due?'' @ chat_prompt_tail]"
    by simp
  from long k c2
  have a2: "snd (analyze_document_with_gemini example_env ?long)
              = [analysis_prompt_head @ replicate 25000 (CHR ''x'') @ analysis_prompt_tail]"
    by simp
  from long k n2 doc2 msg c2
  have q2: "snd (chat_with_document example_env ?req2 [])
              = [chat_prompt_head @ replicate 25000 (CHR ''x'') @ chat_prompt_question
                   @ ''When is the rent due?'' @ chat_prompt_tail]"
    by simp
  from stored k n3 s3 doc3 msg c2
  have q3: "snd (chat_with_document example_env ?req3 ?ds3)
              = [chat_prompt_head @ replicate 25000 (CHR ''x'') @ chat_prompt_question
                   @ ''When is the rent due?'' @ chat_prompt_tail]"
    by simp
  from h1 c1 a1 q1 h2 c2 a2 q2 q3 show ?thesis
    by blast
qed

section \<open>The fallbacks of the analysis\<close>

lemma infra_summary:
  "summary infra_fallback =
     ''Document uploaded successfully. '' @ ''AI analysis encountered an issue''
       @ '', but you can still chat about the document.''"
  by (simp add: infra_fallback_def)

lemma parse_summary:
  "summary parse_fallback =
     ''The document has been processed. The AI analysis is available through the ''
       @ ''chat feature'' @ ''.''"
  by (simp add: parse_fallback_def)

lemma fallbacks_differ: "infra_fallback \<noteq> parse_fallback"
proof
  assume "infra_fallback = parse_fallback"
  then have "summary infra_fallback = summary parse_fallback" by simp
  then show False by (simp add: infra_fallback_def parse_fallback_def)
qed

lemma analyze_with_key:
  "GEMINI_API_KEY e \<noteq> [] \<Longrightarrow>
     analyze_document_with_gemini e text =
       (case generate_content e (analysis_prompt text) of
          Inl ex \<Rightarrow> (Inr infra_fallback, [analysis_prompt text])
        | Inr reply \<Rightarrow> (Inr (parse_analysis e reply), [analysis_prompt text]))"
  by (simp add: analyze_document_with_gemini_def)

lemma analyze_without_key:
  "GEMINI_API_KEY e = [] \<Longrightarrow>
     analyze_document_with_gemini e text =
       (Inl (HTTPException 500
          ''Gemini API key not configured. Please set GEMINI_API_KEY in your environment variables.''), [])"
  by (simp add: analyze_document_with_gemini_def)

text \<open>
  C1. The two-tier fallback of \<open>analyze_document_with_gemini\<close>, for every input text: when
  the generation call it makes raises, it returns the infra-failure record, whose summary
  contains "AI analysis encountered an issue"; when the call returns a reply that
  \<open>json.loads\<close> rejects after the fence-stripping, it returns the parse-failure record, whose
  summary contains "chat feature"; and the two records are different.
\<close>

theorem analyze_two_tier_fallback:
  "(analyze_document_with_gemini e text = (r, calls) \<and> p \<in> set calls
      \<and> generate_content e p = Inl ex
      \<longrightarrow> r = Inr infra_fallback)
   \<and> (analyze_document_with_gemini e text = (r, calls) \<and> p \<in> set calls
      \<and> generate_content e p = Inr reply
      \<and> json_loads e (clean_response reply) = Inl (JSONDecodeError m)
      \<longrightarrow> r = Inr parse_fallback)
   \<and> sublist ''AI analysis encountered an issue'' (summary infra_fallback)
   \<and> sublist ''chat feature'' (summary parse_fallback)
   \<and> infra_fallback \<noteq> parse_fallback"
proof -
  have raised: "r = Inr infra_fallback"
    if "analyze_document_with_gemini e text = (r, calls)" "p \<in> set calls"
       "generate_content e p = Inl ex"
  proof (cases "GEMINI_API_KEY e = []")
    case True
    with that show ?thesis by (simp add: analyze_without_key)
  next
    case False
    with that show ?thesis by (auto simp: analyze_with_key split: sum.splits)
  qed
  have rejected: "r = Inr parse_fallback"
    if "analyze_document_with_gemini e text = (r, calls)" "p \<in> set calls"
       "generate_content e p = Inr reply"
       "json_loads e (clean_response reply) = Inl (JSONDecodeError m)"
  proof (cases "GEMINI_API_KEY e = []")
    case True
    with that show ?thesis by (simp add: analyze_without_key)
  next
    case False
    with that show ?thesis
      by (auto simp: analyze_with_key parse_analysis_def split: sum.splits)
  qed
  have s1: "sublist ''AI analysis encountered an issue'' (summary infra_fallback)"
    unfolding infra_summary by (rule sublist_appendI)
  have s2: "sublist ''chat feature'' (summary parse_fallback)"
    unfolding parse_summary by (rule sublist_appendI)
  from raised rejected s1 s2 fallbacks_differ show ?thesis
    by blast
qed

theorem analyze_two_tier_fallback_witness:
  "analyze_document_with_gemini (example_env \<lparr> generate_content := generate_raises \<rparr>) lease_text
     = (Inr infra_fallback, [analysis_prompt lease_text])
   \<and> generate_raises (analysis_prompt lease_text) = Inl (OtherException ''429 quota exceeded'')
   \<and> analyze_document_with_gemini (example_env \<lparr> generate_content := generate_prose \<rparr>) lease_text
     = (Inr parse_fallback, [analysis_prompt lease_text])
   \<and> generate_prose (analysis_prompt lease_text) = Inr ''Sorry, I cannot analyze this document.''
   \<and> example_json_loads (clean_response ''Sorry, I cannot analyze this document.'')
     = Inl (JSONDecodeError ''Expecting value: line 1 column 1 (char 0)'')"
proof -
  let ?e1 = "example_env \<lparr> generate_content := generate_raises \<rparr>"
  let ?e2 = "example_env \<lparr> generate_content := generate_prose \<rparr>"
  let ?p = "analysis_prompt lease_text"
  obtain r1 where a1: "analyze_document_with_gemini ?e1 lease_text = (r1, [?p])"
    using analyze_calls [of ?e1 lease_text]
    by (cases "analyze_document_with_gemini ?e1 lease_text") (simp add: example_env_def)
  obtain r2 where a2: "analyze_document_with_gemini ?e2 lease_text = (r2, [?p])"
    using analyze_calls [of ?e2 lease_text]
    by (cases "analyze_document_with_gemini ?e2 lease_text") (simp add: example_env_def)
  have g1: "generate_content ?e1 ?p = Inl (OtherException ''429 quota exceeded'')"
    by (simp add: generate_raises_def)
  have g2: "generate_content ?e2 ?p = Inr ''Sorry, I cannot analyze this document.''"
    by (simp add: generate_prose_def)
  have j: "example_json_loads (clean_response ''Sorry, I cannot analyze this document.'')
             = Inl (JSONDecodeError ''Expecting value: line 1 column 1 (char 0)'')"
    by (simp add: example_json_loads_def clean_response_def strip_def lstrip_def rstrip_def
          isspace_def strip_json_fence_def strip_open_fence_def strip_close_fence_def
          startswith_def endswith_def)
  then have j2: "json_loads ?e2 (clean_response ''Sorry, I cannot analyze this document.'')
             = Inl (JSONDecodeError ''Expecting value: line 1 column 1 (char 0)'')"
    by (simp add: example_env_def)
  from analyze_two_tier_fallback
         [of ?e1 lease_text r1 "[?p]" ?p "OtherException ''429 quota exceeded''"]
       a1 g1
  have c1: "r1 = Inr infra_fallback" by simp
  from analyze_two_tier_fallback
         [of ?e2 lease_text r2 "[?p]" ?p _ "''Sorry, I cannot analyze this document.''"
            "''Expecting value: line 1 column 1 (char 0)''"]
       a2 g2 j2
  have c2: "r2 = Inr parse_fallback" by simp
  from a1 a2 c1 c2 g1 g2 j show ?thesis by simp
qed

lemmas str_simps =
  strip_def lstrip_def rstrip_def isspace_def startswith_def endswith_def
  lower_def lower_char_def char_of_eq_iff

lemmas fence_simps =
  clean_response_def strip_json_fence_def strip_open_fence_def strip_close_fence_def

text \<open>
  C2, as the code has it. \<open>analyze_document_with_gemini\<close> raises only from its API-key guard:
  with \<open>GEMINI_API_KEY\<close> configured it returns, for every input text, a record (one that
  passed the validation of \<open>DocumentAnalysis\<close>, or one of the two fallbacks); with the key
  unset it raises HTTPException 500 before any call.
\<close>

theorem analyze_fails_only_without_key:
  "(GEMINI_API_KEY e \<noteq> [] \<longrightarrow>
      (\<exists>a. fst (analyze_document_with_gemini e text) = Inr a
         \<and> (a = infra_fallback \<or> a = parse_fallback
              \<or> (\<exists>s kc ob ri ut. validate e s kc ob ri ut = Some a))))
   \<and> (GEMINI_API_KEY e = [] \<longrightarrow>
      (\<exists>d. analyze_document_with_gemini e text = (Inl (HTTPException 500 d), [])))"
proof -
  have built: "build_analysis e j = Some a \<Longrightarrow> \<exists>s kc ob ri ut. validate e s kc ob ri ut = Some a"
    for j a
    by (auto simp: build_analysis_def split: option.splits) blast
  have parsed: "parse_analysis e reply = infra_fallback \<or> parse_analysis e reply = parse_fallback
                  \<or> (\<exists>s kc ob ri ut. validate e s kc ob ri ut = Some (parse_analysis e reply))"
    for reply
    using built
    by (auto simp: parse_analysis_def split: sum.splits lib_exception.splits option.splits)
  have with_key: "\<exists>a. fst (analyze_document_with_gemini e text) = Inr a
                    \<and> (a = infra_fallback \<or> a = parse_fallback
                         \<or> (\<exists>s kc ob ri ut. validate e s kc ob ri ut = Some a))"
    if "GEMINI_API_KEY e \<noteq> []"
  proof (cases "generate_content e (analysis_prompt text)")
    case (Inl ex)
    with that show ?thesis by (simp add: analyze_with_key)
  next
    case (Inr reply)
    with that parsed [of reply] show ?thesis by (simp add: analyze_with_key)
  qed
  from with_key analyze_without_key [of e "text"] show ?thesis
    by blast
qed

theorem analyze_fails_only_without_key_witness:
  "GEMINI_API_KEY example_env \<noteq> []
   \<and> fst (analyze_document_with_gemini example_env lease_text)
       = Inr \<lparr> summary = ''Lease'', key_clauses = [], obligations = [], risks = [],
               unusual_terms = [] \<rparr>
   \<and> GEMINI_API_KEY no_key_env = []
   \<and> analyze_document_with_gemini no_key_env lease_text
       = (Inl (HTTPException 500
            ''Gemini API key not configured. Please set GEMINI_API_KEY in your environment variables.''), [])"
proof -
  have k1: "GEMINI_API_KEY example_env \<noteq> []"
    by (simp add: example_env_def)
  have k2: "GEMINI_API_KEY no_key_env = []"
    by (simp add: no_key_env_def)
  from analyze_fails_only_without_key [of example_env lease_text] k1
  obtain a where a: "fst (analyze_document_with_gemini example_env lease_text) = Inr a"
    by blast
  have "fst (analyze_document_with_gemini example_env lease_text)
          = Inr \<lparr> summary = ''Lease'', key_clauses = [], obligations = [], risks = [],
                  unusual_terms = [] \<rparr>"
    by (simp add: analyze_with_key k1)
       (simp add: example_env_def generate_fenced_def parse_analysis_def build_analysis_def
          example_json_loads_def fence_simps str_simps)
  moreover
  from analyze_fails_only_without_key [of no_key_env lease_text] k2
  obtain d where "analyze_document_with_gemini no_key_env lease_text
                    = (Inl (HTTPException 500 d), [])"
    by blast
  then have "analyze_document_with_gemini no_key_env lease_text
          = (Inl (HTTPException 500
               ''Gemini API key not configured. Please set GEMINI_API_KEY in your environment variables.''), [])"
    by (simp add: analyze_without_key k2)
  ultimately show ?thesis using k1 k2 by simp
qed

text \<open>
  C2, as the specification states it, fails: started without \<open>GEMINI_API_KEY\<close>, the function
  raises HTTPException 500 to its caller.
\<close>

theorem analyze_raises_without_key:
  "analyze_document_with_gemini no_key_env lease_text
     = (Inl (HTTPException 500
          ''Gemini API key not configured. Please set GEMINI_API_KEY in your environment variables.''), [])"
  by (simp add: analyze_document_with_gemini_def no_key_env_def)

section \<open>The fence-stripping\<close>

lemma startswith_append: "startswith r (p @ q) \<Longrightarrow> startswith r p"
proof -
  assume "startswith r (p @ q)"
  then have h: "take (length (p @ q)) r = p @ q"
    unfolding startswith_def .
  have "take (length p) r = take (length p) (take (length (p @ q)) r)"
    by (simp add: min_def)
  also have "\<dots> = p"
    by (simp only: h) simp
  finally show ?thesis
    unfolding startswith_def .
qed

lemma startswith_json_fence: "startswith r ''```json'' \<Longrightarrow> startswith r ''```''"
  using startswith_append [of r "''```''" "''json''"] by simp

text \<open>
  C8, as the code has it. The reply is trimmed; a leading \<open>```json\<close> is removed; then a
  leading \<open>```\<close> is removed if the text left starts with one, also right after a removed
  \<open>```json\<close>; then a trailing \<open>```\<close> is removed; the result is trimmed. Unless a second
  fence follows the \<open>```json\<close>, this is the cleaning the specification words; a reply with
  no fence is parsed as its trimmed text.
\<close>

theorem fence_stripping:
  "(\<not> (startswith (strip reply) ''```json'' \<and> startswith (drop 7 (strip reply)) ''```'')
      \<longrightarrow> clean_response reply = clean_response_spec reply)
   \<and> (startswith (strip reply) ''```json'' \<and> startswith (drop 7 (strip reply)) ''```''
      \<longrightarrow> clean_response reply = strip (strip_close_fence (drop 10 (strip reply))))
   \<and> (\<not> startswith (strip reply) ''```'' \<and> \<not> endswith (strip reply) ''```''
      \<longrightarrow> clean_response reply = strip reply)"
proof -
  let ?r = "strip reply"
  have one: "clean_response reply = clean_response_spec reply"
    if "\<not> (startswith ?r ''```json'' \<and> startswith (drop 7 ?r) ''```'')"
    using that
    by (auto simp: clean_response_def clean_response_spec_def strip_json_fence_def
          strip_open_fence_def Let_def)
  have two: "clean_response reply = strip (strip_close_fence (drop 10 ?r))"
    if "startswith ?r ''```json'' \<and> startswith (drop 7 ?r) ''```''"
    using that
    by (simp add: clean_response_def strip_json_fence_def strip_open_fence_def)
  have three: "clean_response reply = ?r"
    if "\<not> startswith ?r ''```'' \<and> \<not> endswith ?r ''```''"
  proof -
    from that have "\<not> startswith ?r ''```json''"
      using startswith_json_fence by blast
    with that show ?thesis
      by (simp add: clean_response_def strip_json_fence_def strip_open_fence_def
            strip_close_fence_def strip_idem)
  qed
  from one two three show ?thesis by blast
qed

theorem fence_stripping_witness:
  \<open>\<not> startswith (drop 7 (strip ''```json\<newline>{"summary": "Lease"}\<newline>```\<newline>'')) ''```''
   \<and> clean_response ''```json\<newline>{"summary": "Lease"}\<newline>```\<newline>'' = ''{"summary": "Lease"}''
   \<and> clean_response_spec ''```json\<newline>{"summary": "Lease"}\<newline>```\<newline>'' = ''{"summary": "Lease"}''
   \<and> startswith (strip ''```json```{}'') ''```json''
   \<and> startswith (drop 7 (strip ''```json```{}'')) ''```''
   \<and> clean_response ''```json```{}'' = ''{}''
   \<and> \<not> startswith (strip '' {"summary": "Lease"} '') ''```''
   \<and> \<not> endswith (strip '' {"summary": "Lease"} '') ''```''
   \<and> clean_response '' {"summary": "Lease"} '' = ''{"summary": "Lease"}''\<close>
proof -
  let ?fenced = \<open>''```json\<newline>{"summary": "Lease"}\<newline>```\<newline>''\<close>
  let ?twice = "''```json```{}''"
  let ?plain = \<open>'' {"summary": "Lease"} ''\<close>
  have h1: "\<not> startswith (drop 7 (strip ?fenced)) ''```''"
    by (simp add: str_simps)
  have s1: \<open>clean_response_spec ?fenced = ''{"summary": "Lease"}''\<close>
    by (simp add: clean_response_spec_def strip_close_fence_def str_simps)
  have h2: "startswith (strip ?twice) ''```json'' \<and> startswith (drop 7 (strip ?twice)) ''```''"
    by (simp add: str_simps)
  have s2: "strip (strip_close_fence (drop 10 (strip ?twice))) = ''{}''"
    by (simp add: strip_close_fence_def str_simps)
  have h3: "\<not> startswith (strip ?plain) ''```'' \<and> \<not> endswith (strip ?plain) ''```''"
    by (simp add: str_simps)
  have s3: \<open>strip ?plain = ''{"summary": "Lease"}''\<close>
    by (simp add: str_simps)
  from fence_stripping [of ?fenced] h1 s1
  have c1: \<open>clean_response ?fenced = ''{"summary": "Lease"}''\<close>
    by simp
  from fence_stripping [of ?twice] h2 s2
  have c2: "clean_response ?twice = ''{}''"
    by simp
  from fence_stripping [of ?plain] h3 s3
  have c3: \<open>clean_response ?plain = ''{"summary": "Lease"}''\<close>
    by simp
  from h1 s1 h2 h3 c1 c2 c3 show ?thesis
    by simp
qed

text \<open>
  C8, as the specification states it, fails where a second fence follows the \<open>```json\<close>: the
  code removes both, the specification's "otherwise" only the first.
\<close>

theorem fence_stripping_removes_both:
  "clean_response ''```json```{}'' = ''{}'' \<and> clean_response_spec ''```json```{}'' = ''```{}''"
  by (simp add: clean_response_spec_def fence_simps str_simps)

section \<open>The extraction\<close>

lemma extract_pages_concat: "extract_pages pages acc = acc @ concat_pages pages"
  by (induction pages acc rule: extract_pages.induct) (simp_all add: concat_pages_def)

lemma extract_text_from_pdf_eq:
  "extract_text_from_pdf e content =
     (case pdf_reader e content of
        Inl ex \<Rightarrow> Inl (HTTPException 400 (''Error extracting text from PDF: '' @ str_e ex))
      | Inr pages \<Rightarrow>
          if strip (concat_pages pages) = []
          then Inl (HTTPException 400 (''Error extracting text from PDF: '' @ no_text_message))
          else Inr (strip (concat_pages pages)))"
  by (simp add: extract_text_from_pdf_def extract_pages_concat Let_def split: sum.splits)

lemma concat_pages_skip: "concat_pages (ps @ Inl ex # qs) = concat_pages (ps @ qs)"
  by (simp add: concat_pages_def)

text \<open>
  C4. \<open>extract_text_from_pdf\<close> fails exactly when the reader rejects the byte stream or the
  trimmed concatenation of the page texts is empty, and then with status 400; otherwise it
  returns the trimmed concatenation, in page order, of each page's text followed by a
  newline. A page whose extraction raises adds nothing: the result is the one for the
  document without that page.
\<close>

theorem extraction:
  "((\<exists>h. extract_text_from_pdf e content = Inl h) \<longleftrightarrow>
      ((\<exists>ex. pdf_reader e content = Inl ex)
       \<or> (\<exists>pages. pdf_reader e content = Inr pages \<and> length (strip (concat_pages pages)) = 0)))
   \<and> (pdf_reader e content = Inr pages \<and> length (strip (concat_pages pages)) \<noteq> 0
        \<longrightarrow> extract_text_from_pdf e content = Inr (strip (concat_pages pages)))
   \<and> (extract_text_from_pdf e content = Inl h \<longrightarrow> status_code h = 400)
   \<and> concat_pages [] = []
   \<and> concat_pages (ps @ [Inr page_text]) = concat_pages ps @ page_text @ ''\<newline>''
   \<and> (pdf_reader e content = Inr (ps @ Inl ex # qs) \<and> pdf_reader e' content' = Inr (ps @ qs)
        \<longrightarrow> extract_text_from_pdf e content = extract_text_from_pdf e' content')"
proof -
  have fails: "(\<exists>h. extract_text_from_pdf e content = Inl h) \<longleftrightarrow>
      ((\<exists>ex. pdf_reader e content = Inl ex)
       \<or> (\<exists>pages. pdf_reader e content = Inr pages \<and> length (strip (concat_pages pages)) = 0))"
    by (cases "pdf_reader e content") (simp_all add: extract_text_from_pdf_eq)
  have returns: "pdf_reader e content = Inr pages \<and> length (strip (concat_pages pages)) \<noteq> 0
        \<longrightarrow> extract_text_from_pdf e content = Inr (strip (concat_pages pages))"
    by (simp add: extract_text_from_pdf_eq)
  have status: "extract_text_from_pdf e content = Inl h \<longrightarrow> status_code h = 400"
    by (cases "pdf_reader e content") (auto simp: extract_text_from_pdf_eq split: if_splits)
  have order: "concat_pages (ps @ [Inr page_text]) = concat_pages ps @ page_text @ ''\<newline>''"
    by (simp add: concat_pages_def)
  have skipped: "pdf_reader e content = Inr (ps @ Inl ex # qs)
                   \<and> pdf_reader e' content' = Inr (ps @ qs)
        \<longrightarrow> extract_text_from_pdf e content = extract_text_from_pdf e' content'"
    by (simp add: extract_text_from_pdf_eq concat_pages_skip)
  have "concat_pages [] = []"
    by (simp add: concat_pages_def)
  with fails returns status order skipped show ?thesis
    by blast
qed

lemma lease_pages: "concat_pages [Inr lease_page, Inl ex, Inr rent_page] = lease_text @ ''\<newline>''"
  by (simp add: concat_pages_def lease_page_def rent_page_def lease_text_def)

lemma strip_lease_text: "strip (lease_text @ ''\<newline>'') = lease_text"
  by (simp add: lease_text_def str_simps)

theorem extraction_witness:
  "pdf_reader example_env [37, 80, 68, 70]
     = Inr [Inr lease_page, Inl (OtherException ''unsupported font''), Inr rent_page]
   \<and> length (strip (concat_pages
        [Inr lease_page, Inl (OtherException ''unsupported font''), Inr rent_page])) \<noteq> 0
   \<and> extract_text_from_pdf example_env [37, 80, 68, 70] = Inr lease_text
   \<and> pdf_reader (example_env \<lparr> pdf_reader := broken_pdf_reader \<rparr>) [37, 80, 68, 70]
       = Inl (OtherException ''EOF marker not found'')
   \<and> isl (extract_text_from_pdf (example_env \<lparr> pdf_reader := broken_pdf_reader \<rparr>)
            [37, 80, 68, 70])
   \<and> pdf_reader (example_env \<lparr> pdf_reader := scanned_pdf_reader \<rparr>) [37, 80, 68, 70]
       = Inr [Inr '' '', Inl (OtherException ''unsupported font'')]
   \<and> length (strip (concat_pages [Inr '' '', Inl (OtherException ''unsupported font'')])) = 0
   \<and> isl (extract_text_from_pdf (example_env \<lparr> pdf_reader := scanned_pdf_reader \<rparr>)
            [37, 80, 68, 70])"
proof -
  let ?c = "[37, 80, 68, 70] :: bytes"
  let ?lease = "[Inr lease_page, Inl (OtherException ''unsupported font''), Inr rent_page]"
  let ?scan = "[Inr '' '', Inl (OtherException ''unsupported font'')]"
  let ?broken = "example_env \<lparr> pdf_reader := broken_pdf_reader \<rparr>"
  let ?scanned = "example_env \<lparr> pdf_reader := scanned_pdf_reader \<rparr>"
  have r1: "pdf_reader example_env ?c = Inr ?lease"
    by (simp add: example_env_def lease_pdf_reader_def)
  have n1: "length (strip (concat_pages ?lease)) \<noteq> 0"
    by (simp add: lease_pages strip_lease_text) (simp add: lease_text_def)
  have r2: "pdf_reader ?broken ?c = Inl (OtherException ''EOF marker not found'')"
    by (simp add: broken_pdf_reader_def)
  have r3: "pdf_reader ?scanned ?c = Inr ?scan"
    by (simp add: scanned_pdf_reader_def)
  have n3: "length (strip (concat_pages ?scan)) = 0"
    by (simp add: concat_pages_def str_simps)
  from extraction [of example_env ?c ?lease] r1 n1
  have c1: "extract_text_from_pdf example_env ?c = Inr lease_text"
    by (simp add: lease_pages strip_lease_text)
  from extraction [of ?broken ?c] r2
  have c2: "isl (extract_text_from_pdf ?broken ?c)"
    by (auto simp: isl_def)
  from extraction [of ?scanned ?c] r3 n3
  have c3: "isl (extract_text_from_pdf ?scanned ?c)"
    by (auto simp: isl_def)
  from r1 n1 c1 r2 c2 r3 n3 c3 show ?thesis
    by blast
qed

section \<open>Filenames that end in \<open>.pdf\<close>, whatever the case\<close>

lemma char_of_plus_32:
  assumes "(of_char c :: nat) \<le> 222"
  shows "char_of ((of_char c :: nat) + 32) = t \<longleftrightarrow> (of_char c :: nat) + 32 = of_char t"
proof -
  from assms have "((of_char c :: nat) + 32) mod 256 = of_char c + 32"
    by simp
  then have "(of_char (char_of ((of_char c :: nat) + 32)) :: nat) = of_char c + 32"
    by simp
  then show ?thesis
    by (metis of_char_eq_iff)
qed

lemma lower_char_letter:
  assumes "(of_char t :: nat) = of_char u + 32"
    and "65 \<le> (of_char u :: nat)" and "(of_char u :: nat) \<le> 90"
  shows "lower_char c = t \<longleftrightarrow> c = t \<or> c = u"
proof (cases "(65 \<le> (of_char c :: nat) \<and> (of_char c :: nat) \<le> 90)
               \<or> (192 \<le> (of_char c :: nat) \<and> (of_char c :: nat) \<le> 222
                    \<and> (of_char c :: nat) \<noteq> 215)")
  case True
  then have "lower_char c = char_of ((of_char c :: nat) + 32)"
    by (simp add: lower_char_def)
  moreover from True have "(of_char c :: nat) \<le> 222"
    by auto
  ultimately have "lower_char c = t \<longleftrightarrow> (of_char c :: nat) + 32 = of_char t"
    by (simp add: char_of_plus_32)
  also have "\<dots> \<longleftrightarrow> (of_char c :: nat) = of_char u"
    using assms by auto
  also have "\<dots> \<longleftrightarrow> c = u"
    by simp
  finally have "lower_char c = t \<longleftrightarrow> c = u" .
  moreover have "c \<noteq> t"
    using True assms by auto
  ultimately show ?thesis by simp
next
  case False
  then have "lower_char c = c"
    by (auto simp: lower_char_def Let_def)
  moreover have "c \<noteq> u"
    using False assms by auto
  ultimately show ?thesis by auto
qed

lemma lower_char_low:
  assumes "(of_char t :: nat) < 65"
  shows "lower_char c = t \<longleftrightarrow> c = t"
proof (cases "(65 \<le> (of_char c :: nat) \<and> (of_char c :: nat) \<le> 90)
               \<or> (192 \<le> (of_char c :: nat) \<and> (of_char c :: nat) \<le> 222
                    \<and> (of_char c :: nat) \<noteq> 215)")
  case True
  then have "lower_char c = char_of ((of_char c :: nat) + 32)"
    by (simp add: lower_char_def)
  moreover from True have "(of_char c :: nat) \<le> 222"
    by auto
  ultimately have "lower_char c = t \<longleftrightarrow> (of_char c :: nat) + 32 = of_char t"
    by (simp add: char_of_plus_32)
  moreover have "(of_char c :: nat) + 32 \<noteq> of_char t"
    using True assms by auto
  moreover have "c \<noteq> t"
    using True assms by auto
  ultimately show ?thesis by simp
next
  case False
  then show ?thesis
    by (auto simp: lower_char_def Let_def)
qed

lemma lower_p: "lower_char c = CHR ''p'' \<longleftrightarrow> c = CHR ''p'' \<or> c = CHR ''P''"
  by (rule lower_char_letter) simp_all

lemma lower_d: "lower_char c = CHR ''d'' \<longleftrightarrow> c = CHR ''d'' \<or> c = CHR ''D''"
  by (rule lower_char_letter) simp_all

lemma lower_f: "lower_char c = CHR ''f'' \<longleftrightarrow> c = CHR ''f'' \<or> c = CHR ''F''"
  by (rule lower_char_letter) simp_all

lemma lower_dot: "lower_char c = CHR ''.'' \<longleftrightarrow> c = CHR ''.''"
  by (rule lower_char_low) simp

lemma endswith_iff: "endswith s p \<longleftrightarrow> (\<exists>stem. s = stem @ p)"
  unfolding endswith_def
  by (metis append_eq_conv_conj append_take_drop_id diff_add_inverse2 length_append le_add2 length_drop)

lemma pdf_suffix:
  "endswith (lower fname) ''.pdf'' \<longleftrightarrow>
     (\<exists>stem a b c. fname = stem @ [CHR ''.'', a, b, c]
        \<and> (a = CHR ''p'' \<or> a = CHR ''P'') \<and> (b = CHR ''d'' \<or> b = CHR ''D'')
        \<and> (c = CHR ''f'' \<or> c = CHR ''F''))"
proof
  assume "endswith (lower fname) ''.pdf''"
  then obtain stem where "map lower_char fname = stem @ ''.pdf''"
    by (auto simp: endswith_iff lower_def)
  then obtain xs ys where f: "fname = xs @ ys" and "map lower_char ys = ''.pdf''"
    by (auto simp: map_eq_append_conv)
  then obtain d a b c where "ys = [d, a, b, c]" "lower_char d = CHR ''.''"
      "lower_char a = CHR ''p''" "lower_char b = CHR ''d''" "lower_char c = CHR ''f''"
    by (auto simp: map_eq_Cons_conv)
  with f show "\<exists>stem a b c. fname = stem @ [CHR ''.'', a, b, c]
        \<and> (a = CHR ''p'' \<or> a = CHR ''P'') \<and> (b = CHR ''d'' \<or> b = CHR ''D'')
        \<and> (c = CHR ''f'' \<or> c = CHR ''F'')"
    by (auto simp: lower_p lower_d lower_f lower_dot)
next
  assume "\<exists>stem a b c. fname = stem @ [CHR ''.'', a, b, c]
        \<and> (a = CHR ''p'' \<or> a = CHR ''P'') \<and> (b = CHR ''d'' \<or> b = CHR ''D'')
        \<and> (c = CHR ''f'' \<or> c = CHR ''F'')"
  then obtain stem a b c where f: "fname = stem @ [CHR ''.'', a, b, c]"
    and "lower_char a = CHR ''p''" "lower_char b = CHR ''d''" "lower_char c = CHR ''f''"
    by (auto simp: lower_p lower_d lower_f)
  moreover have "lower_char (CHR ''.'') = CHR ''.''" by (simp add: lower_dot)
  ultimately have "lower fname = map lower_char stem @ ''.pdf''"
    by (simp add: lower_def)
  then show "endswith (lower fname) ''.pdf''"
    by (auto simp: endswith_iff)
qed

section \<open>The validation of an upload\<close>

lemma extract_raises_400:
  "extract_text_from_pdf e content = Inl h \<Longrightarrow> \<exists>d. h = HTTPException 400 d"
  by (cases "pdf_reader e content") (auto simp: extract_text_from_pdf_eq split: if_splits)

lemma short_pages:
  assumes "pdf_reader e content = Inr pages" and "length (strip (concat_pages pages)) < 50"
  shows "(\<exists>h. extract_text_from_pdf e content = Inl h)
           \<or> (\<exists>t. extract_text_from_pdf e content = Inr t \<and> length (strip t) < 50)"
  using assms by (simp add: extract_text_from_pdf_eq strip_idem)

lemma analyze_raises_500:
  "analyze_document_with_gemini e t = (Inl h, calls) \<Longrightarrow> status_code h = 500"
  by (auto simp: analyze_document_with_gemini_def split: if_splits sum.splits)

lemma upload_rejects_extracted:
  assumes "filename_rejected (filename file)
    \<or> (\<exists>content. read file = Inr content
          \<and> (length content = 0 \<or> 10485760 < length content
               \<or> (\<exists>h. extract_text_from_pdf e content = Inl h)
               \<or> (\<exists>t. extract_text_from_pdf e content = Inr t \<and> length (strip t) < 50)))"
  shows "\<exists>d. upload_document e file ds = (Inl (HTTPException 400 d), ds, [])"
  using assms
  by (auto simp: upload_document_def upload_try_def filename_rejected_def Let_def
        dest: extract_raises_400 split: option.splits sum.splits if_splits)

lemma upload_rejects:
  assumes "filename_rejected (filename file)
    \<or> (\<exists>content. read file = Inr content
          \<and> (length content = 0 \<or> 10485760 < length content
               \<or> (\<exists>pages. pdf_reader e content = Inr pages
                     \<and> length (strip (concat_pages pages)) < 50)
               \<or> (\<exists>h. extract_text_from_pdf e content = Inl h)
               \<or> (\<exists>t. extract_text_from_pdf e content = Inr t \<and> length (strip t) < 50)))"
  shows "\<exists>d. upload_document e file ds = (Inl (HTTPException 400 d), ds, [])"
proof -
  from assms short_pages [of e]
  have "filename_rejected (filename file)
    \<or> (\<exists>content. read file = Inr content
          \<and> (length content = 0 \<or> 10485760 < length content
               \<or> (\<exists>h. extract_text_from_pdf e content = Inl h)
               \<or> (\<exists>t. extract_text_from_pdf e content = Inr t \<and> length (strip t) < 50)))"
    by blast
  then show ?thesis
    by (rule upload_rejects_extracted)
qed

lemma upload_read_fails:
  assumes "\<not> filename_rejected (filename file)" and "read file = Inl ex"
  shows "\<exists>d. upload_document e file ds = (Inl (HTTPException 500 d), ds, [])"
  using assms
  by (auto simp: upload_document_def upload_try_def filename_rejected_def cleanup_def
        split: option.splits)

lemma upload_stores:
  assumes "\<not> filename_rejected (filename file)" and "read file = Inr content"
    and "0 < length content" and "length content \<le> 10485760"
    and "extract_text_from_pdf e content = Inr t" and "50 \<le> length (strip t)"
  shows "upload_document e file ds =
     (let doc_id = make_doc_id e t;
          ds' = AList.update doc_id
                  \<lparr> doc_text = t, doc_filename = the (filename file),
                    doc_upload_time = isoformat_now e, doc_file_size = length content \<rparr> ds
      in case analyze_document_with_gemini e t of
           (Inl h, calls) \<Rightarrow> (Inl h, ds', calls)
         | (Inr analysis, calls) \<Rightarrow>
             (Inr \<lparr> res_document_id = doc_id, res_filename = the (filename file),
                    res_analysis = analysis, res_text_length = length t \<rparr>, ds', calls))"
  using assms
  by (auto simp: upload_document_def upload_try_def filename_rejected_def Let_def
        split: option.splits sum.splits prod.splits)

lemma upload_extraction_fails:
  assumes "\<not> filename_rejected (filename file)" and "read file = Inr content"
    and "0 < length content" and "length content \<le> 10485760"
    and "extract_text_from_pdf e content = Inl h"
  shows "upload_document e file ds = (Inl h, ds, [])"
  using assms
  by (auto simp: upload_document_def upload_try_def filename_rejected_def Let_def
        split: option.splits sum.splits prod.splits)

lemma upload_400_only:
  assumes "fst (upload_document e file ds) = Inl h" and "status_code h = 400"
  shows "filename_rejected (filename file)
    \<or> (\<exists>content. read file = Inr content
          \<and> (length content = 0 \<or> 10485760 < length content
               \<or> (\<exists>h. extract_text_from_pdf e content = Inl h)
               \<or> (\<exists>t. extract_text_from_pdf e content = Inr t \<and> length (strip t) < 50)))"
proof (rule ccontr)
  assume n: "\<not> ?thesis"
  then have ok: "\<not> filename_rejected (filename file)"
    by blast
  show False
  proof (cases "read file")
    case (Inl ex)
    with ok upload_read_fails [of "file" ex e ds] assms show False
      by auto
  next
    case (Inr content)
    with n obtain t where size: "0 < length content" "length content \<le> 10485760"
      and x: "extract_text_from_pdf e content = Inr t" and len: "50 \<le> length (strip t)"
      by (cases "extract_text_from_pdf e content") (auto simp: not_less)
    obtain r calls where a: "analyze_document_with_gemini e t = (r, calls)"
      by (cases "analyze_document_with_gemini e t")
    show False
    proof (cases r)
      case (Inl h')
      with a have "status_code h' = 500"
        by (simp add: analyze_raises_500)
      with assms ok Inr size x len a Inl show False
        by (simp add: upload_stores Let_def)
    next
      case r: (Inr analysis)
      with assms ok Inr size x len a show False
        by (simp add: upload_stores Let_def)
    qed
  qed
qed

text \<open>
  C5. \<open>upload_document\<close> answers with status 400, leaving the store as it was and sending
  nothing to the model, every request whose filename is missing or does not end in \<open>.pdf\<close>
  (in any mix of upper and lower case), whose payload has 0 bytes or more than 10,485,760
  bytes, or whose extracted text, trimmed, has fewer than 50 characters: the pages read give
  fewer than 50 characters after trimming (none at all included, where
  \<open>extract_text_from_pdf\<close> itself raises), or \<open>extract_text_from_pdf\<close> raises for any
  other reason. These are the only requests
  answered with status 400. A payload of exactly 10,485,760 bytes is not rejected for its
  size: with a good filename, a text of 50 characters or more and the API key configured,
  the upload succeeds.
\<close>

theorem upload_validation:
  "(filename_rejected (filename file)
      \<or> (\<exists>content. read file = Inr content
            \<and> (length content = 0 \<or> 10485760 < length content
                 \<or> (\<exists>pages. pdf_reader e content = Inr pages
                       \<and> length (strip (concat_pages pages)) < 50)
                 \<or> (\<exists>h. extract_text_from_pdf e content = Inl h)
                 \<or> (\<exists>t. extract_text_from_pdf e content = Inr t \<and> length (strip t) < 50)))
      \<longrightarrow> (\<exists>d. upload_document e file ds = (Inl (HTTPException 400 d), ds, [])))
   \<and> ((\<exists>h. fst (upload_document e file ds) = Inl h \<and> status_code h = 400)
      \<longrightarrow> filename_rejected (filename file)
          \<or> (\<exists>content. read file = Inr content
                \<and> (length content = 0 \<or> 10485760 < length content
                     \<or> (\<exists>h. extract_text_from_pdf e content = Inl h)
                     \<or> (\<exists>t. extract_text_from_pdf e content = Inr t
                           \<and> length (strip t) < 50))))
   \<and> (filename_rejected (Some fname) \<longleftrightarrow>
        \<not> (\<exists>stem a b c. fname = stem @ [CHR ''.'', a, b, c]
              \<and> (a = CHR ''p'' \<or> a = CHR ''P'') \<and> (b = CHR ''d'' \<or> b = CHR ''D'')
              \<and> (c = CHR ''f'' \<or> c = CHR ''F'')))
   \<and> filename_rejected None
   \<and> (\<not> filename_rejected (filename file) \<and> read file = Inr content
        \<and> length content = 10485760
      \<longrightarrow> fst (upload_document e file ds)
            \<noteq> Inl (HTTPException 400 ''File size must be less than 10MB'')
          \<and> (extract_text_from_pdf e content = Inr t \<and> 50 \<le> length (strip t)
                \<and> GEMINI_API_KEY e \<noteq> []
              \<longrightarrow> (\<exists>res. fst (upload_document e file ds) = Inr res)))"
proof -
  have name: "filename_rejected (Some fname) \<longleftrightarrow>
        \<not> (\<exists>stem a b c. fname = stem @ [CHR ''.'', a, b, c]
              \<and> (a = CHR ''p'' \<or> a = CHR ''P'') \<and> (b = CHR ''d'' \<or> b = CHR ''D'')
              \<and> (c = CHR ''f'' \<or> c = CHR ''F''))"
    by (auto simp: filename_rejected_def pdf_suffix)
  have none: "filename_rejected None"
    by (simp add: filename_rejected_def)
  have only: "filename_rejected (filename file)
          \<or> (\<exists>content. read file = Inr content
                \<and> (length content = 0 \<or> 10485760 < length content
                     \<or> (\<exists>h. extract_text_from_pdf e content = Inl h)
                     \<or> (\<exists>t. extract_text_from_pdf e content = Inr t
                           \<and> length (strip t) < 50)))"
    if "\<exists>h. fst (upload_document e file ds) = Inl h \<and> status_code h = 400"
    using that upload_400_only [of e "file" ds] by blast
  have full: "fst (upload_document e file ds)
                \<noteq> Inl (HTTPException 400 ''File size must be less than 10MB'')
              \<and> (extract_text_from_pdf e content = Inr t \<and> 50 \<le> length (strip t)
                    \<and> GEMINI_API_KEY e \<noteq> []
                  \<longrightarrow> (\<exists>res. fst (upload_document e file ds) = Inr res))"
    if ok: "\<not> filename_rejected (filename file)" "read file = Inr content"
       and size: "length content = 10485760"
  proof (cases "extract_text_from_pdf e content")
    case (Inl h)
    with ok size have "upload_document e file ds = (Inl h, ds, [])"
      by (simp add: upload_extraction_fails)
    moreover from Inl have "detail h \<noteq> ''File size must be less than 10MB''"
      by (auto simp: extract_text_from_pdf_eq split: sum.splits if_splits)
    ultimately show ?thesis
      using Inl by auto
  next
    case (Inr t')
    show ?thesis
    proof (cases "length (strip t') < 50")
      case True
      with ok size Inr show ?thesis
        by (auto simp: upload_document_def upload_try_def filename_rejected_def Let_def
              split: option.splits)
    next
      case False
      with ok size Inr have "upload_document e file ds =
        (let doc_id = make_doc_id e t';
             ds' = AList.update doc_id
                     \<lparr> doc_text = t', doc_filename = the (filename file),
                       doc_upload_time = isoformat_now e, doc_file_size = length content \<rparr> ds
         in case analyze_document_with_gemini e t' of
              (Inl h, calls) \<Rightarrow> (Inl h, ds', calls)
            | (Inr analysis, calls) \<Rightarrow>
                (Inr \<lparr> res_document_id = doc_id, res_filename = the (filename file),
                       res_analysis = analysis, res_text_length = length t' \<rparr>, ds', calls))"
        by (intro upload_stores) simp_all
      then show ?thesis
        using Inr
        by (cases "GEMINI_API_KEY e = []")
           (auto simp: Let_def analyze_with_key analyze_without_key split: sum.splits)
    qed
  qed
  from upload_rejects [of "file" e ds] only name none full show ?thesis
    by blast
qed

lemma lease_extracted: "extract_text_from_pdf example_env content = Inr lease_text"
  by (simp add: extract_text_from_pdf_eq example_env_def lease_pdf_reader_def lease_pages
        strip_lease_text)
     (simp add: lease_text_def)

lemma example_now: "isoformat_now example_env = ''2024-01-01T12:00:00''"
  by (simp add: example_env_def)

lemma lease_length: "length lease_text = 76"
  by (simp add: lease_text_def)

lemma lease_long_enough: "50 \<le> length (strip lease_text)"
  by (simp add: lease_text_def str_simps)

lemma lease_doc_id_eq: "make_doc_id example_env lease_text = lease_doc_id"
  by (simp add: make_doc_id_def example_env_def example_hash_def lease_text_def lease_doc_id_def)

lemma lease_analysis:
  "analyze_document_with_gemini example_env lease_text =
     (Inr \<lparr> summary = ''Lease'', key_clauses = [], obligations = [], risks = [],
            unusual_terms = [] \<rparr>, [analysis_prompt lease_text])"
  by (simp add: analyze_document_with_gemini_def)
     (simp add: example_env_def generate_fenced_def parse_analysis_def build_analysis_def
        example_json_loads_def fence_simps str_simps)

theorem upload_validation_witness:
  "filename_rejected (filename word_upload)
   \<and> upload_document example_env word_upload []
       = (Inl (HTTPException 400 ''Only PDF files are supported''), [], [])
   \<and> read empty_upload = Inr []
   \<and> upload_document example_env empty_upload []
       = (Inl (HTTPException 400 ''The uploaded file is empty''), [], [])
   \<and> read oversize_upload = Inr (replicate 10485761 0)
   \<and> upload_document example_env oversize_upload []
       = (Inl (HTTPException 400 ''File size must be less than 10MB''), [], [])
   \<and> extract_text_from_pdf (example_env \<lparr> pdf_reader := short_pdf_reader \<rparr>) [37, 80, 68, 70]
       = Inr ''Page 1 of 1''
   \<and> upload_document (example_env \<lparr> pdf_reader := short_pdf_reader \<rparr>) lease_upload []
       = (Inl (HTTPException 400
            ''Document appears to contain insufficient text. Please ensure the PDF contains readable text (not just images).''),
          [], [])
   \<and> pdf_reader (example_env \<lparr> pdf_reader := scanned_pdf_reader \<rparr>) [37, 80, 68, 70]
       = Inr [Inr '' '', Inl (OtherException ''unsupported font'')]
   \<and> length (strip (concat_pages [Inr '' '', Inl (OtherException ''unsupported font'')])) = 0
   \<and> upload_document (example_env \<lparr> pdf_reader := scanned_pdf_reader \<rparr>) lease_upload []
       = (Inl (HTTPException 400
            ''Error extracting text from PDF: No text could be extracted from the PDF. The file might be image-based or corrupted.''),
          [], [])
   \<and> extract_text_from_pdf (example_env \<lparr> pdf_reader := broken_pdf_reader \<rparr>) [37, 80, 68, 70]
       = Inl (HTTPException 400 ''Error extracting text from PDF: EOF marker not found'')
   \<and> upload_document (example_env \<lparr> pdf_reader := broken_pdf_reader \<rparr>) lease_upload []
       = (Inl (HTTPException 400 ''Error extracting text from PDF: EOF marker not found''),
          [], [])
   \<and> \<not> filename_rejected (filename full_size_upload)
   \<and> read full_size_upload = Inr (replicate 10485760 0)
   \<and> fst (upload_document example_env full_size_upload [])
       = Inr \<lparr> res_document_id = lease_doc_id, res_filename = ''lease.pdf'',
               res_analysis = \<lparr> summary = ''Lease'', key_clauses = [], obligations = [],
                                risks = [], unusual_terms = [] \<rparr>,
               res_text_length = 76 \<rparr>"
proof -
  let ?short = "example_env \<lparr> pdf_reader := short_pdf_reader \<rparr>"
  let ?big = "replicate 10485760 0 :: bytes"
  have f1: "filename_rejected (filename word_upload)"
    by (simp add: filename_rejected_def word_upload_def str_simps)
  have f2: "read empty_upload = Inr []"
    by (simp add: empty_upload_def)
  have f3: "read oversize_upload = Inr (replicate 10485761 0)"
    by (simp add: oversize_upload_def)
  have f4: "read lease_upload = Inr [37, 80, 68, 70]"
    by (simp add: lease_upload_def)
  have x4: "extract_text_from_pdf ?short [37, 80, 68, 70] = Inr ''Page 1 of 1''"
    by (simp add: extract_text_from_pdf_eq short_pdf_reader_def concat_pages_def str_simps)
  have f5: "\<not> filename_rejected (filename full_size_upload)"
    by (simp add: filename_rejected_def full_size_upload_def str_simps)
  have f6: "read full_size_upload = Inr ?big"
    by (simp add: full_size_upload_def)
  have k: "GEMINI_API_KEY example_env \<noteq> []"
    by (simp add: example_env_def)
  have rejects: "\<exists>d. upload_document e' f ds = (Inl (HTTPException 400 d), ds, [])"
    if "filename_rejected (filename f)
        \<or> (\<exists>content. read f = Inr content
              \<and> (length content = 0 \<or> 10485760 < length content
                   \<or> (\<exists>pages. pdf_reader e' content = Inr pages
                         \<and> length (strip (concat_pages pages)) < 50)
                   \<or> (\<exists>h. extract_text_from_pdf e' content = Inl h)
                   \<or> (\<exists>t. extract_text_from_pdf e' content = Inr t \<and> length (strip t) < 50)))"
    for e' f ds
    using that upload_validation [of f e' ds, THEN conjunct1] by (rule rev_mp)
  from f1 have "\<exists>d. upload_document example_env word_upload [] = (Inl (HTTPException 400 d), [], [])"
    by (intro rejects) simp
  then have c1: "upload_document example_env word_upload []
                   = (Inl (HTTPException 400 ''Only PDF files are supported''), [], [])"
    by (simp add: upload_document_def upload_try_def word_upload_def str_simps)
  from f2 have "\<exists>d. upload_document example_env empty_upload [] = (Inl (HTTPException 400 d), [], [])"
    by (intro rejects) simp
  then have c2: "upload_document example_env empty_upload []
                   = (Inl (HTTPException 400 ''The uploaded file is empty''), [], [])"
    by (simp add: upload_document_def upload_try_def empty_upload_def str_simps)
  from f3 have "\<exists>d. upload_document example_env oversize_upload []
                     = (Inl (HTTPException 400 d), [], [])"
    by (intro rejects) simp
  then have c3: "upload_document example_env oversize_upload []
                   = (Inl (HTTPException 400 ''File size must be less than 10MB''), [], [])"
    by (simp add: upload_document_def upload_try_def oversize_upload_def str_simps)
  have "length (strip ''Page 1 of 1'') < 50"
    by (simp add: str_simps)
  with f4 x4 have "\<exists>d. upload_document ?short lease_upload [] = (Inl (HTTPException 400 d), [], [])"
    by (intro rejects) simp
  then have c4: "upload_document ?short lease_upload []
       = (Inl (HTTPException 400
            ''Document appears to contain insufficient text. Please ensure the PDF contains readable text (not just images).''),
          [], [])"
    using x4
    by (simp add: upload_document_def upload_try_def lease_upload_def str_simps)
  let ?scanned = "example_env \<lparr> pdf_reader := scanned_pdf_reader \<rparr>"
  let ?broken = "example_env \<lparr> pdf_reader := broken_pdf_reader \<rparr>"
  let ?scan = "[Inr '' '', Inl (OtherException ''unsupported font'')]"
  have r6: "pdf_reader ?scanned [37, 80, 68, 70] = Inr ?scan"
    by (simp add: scanned_pdf_reader_def)
  have n6: "length (strip (concat_pages ?scan)) = 0"
    by (simp add: concat_pages_def str_simps)
  have x6: "extract_text_from_pdf ?scanned [37, 80, 68, 70]
              = Inl (HTTPException 400
                  ''Error extracting text from PDF: No text could be extracted from the PDF. The file might be image-based or corrupted.'')"
    by (simp add: extract_text_from_pdf_eq scanned_pdf_reader_def concat_pages_def
          no_text_message_def str_simps)
  from f4 r6 n6
  have "\<exists>d. upload_document ?scanned lease_upload [] = (Inl (HTTPException 400 d), [], [])"
    by (intro rejects) simp
  then have c6: "upload_document ?scanned lease_upload []
       = (Inl (HTTPException 400
            ''Error extracting text from PDF: No text could be extracted from the PDF. The file might be image-based or corrupted.''),
          [], [])"
    using x6
    by (simp add: upload_document_def upload_try_def lease_upload_def str_simps)
  have x7: "extract_text_from_pdf ?broken [37, 80, 68, 70]
              = Inl (HTTPException 400 ''Error extracting text from PDF: EOF marker not found'')"
    by (simp add: extract_text_from_pdf_eq broken_pdf_reader_def)
  from f4 x7
  have "\<exists>d. upload_document ?broken lease_upload [] = (Inl (HTTPException 400 d), [], [])"
    by (intro rejects) simp
  then have c7: "upload_document ?broken lease_upload []
       = (Inl (HTTPException 400 ''Error extracting text from PDF: EOF marker not found''),
          [], [])"
    using x7
    by (simp add: upload_document_def upload_try_def lease_upload_def str_simps)
  note full = upload_validation
    [of full_size_upload example_env "[]" "''lease.pdf''" ?big lease_text,
     THEN conjunct2, THEN conjunct2, THEN conjunct2, THEN conjunct2]
  from f5 f6 have "\<not> filename_rejected (filename full_size_upload)
                    \<and> read full_size_upload = Inr ?big \<and> length ?big = 10485760"
    by simp
  from this full have "extract_text_from_pdf example_env ?big = Inr lease_text
                         \<and> 50 \<le> length (strip lease_text) \<and> GEMINI_API_KEY example_env \<noteq> []
           \<longrightarrow> (\<exists>res. fst (upload_document example_env full_size_upload []) = Inr res)"
    by (rule rev_mp [THEN conjunct2])
  with k lease_extracted lease_long_enough
  obtain res where r: "fst (upload_document example_env full_size_upload []) = Inr res"
    by blast
  have "upload_document example_env full_size_upload [] =
     (let doc_id = make_doc_id example_env lease_text;
          ds' = AList.update doc_id
                  \<lparr> doc_text = lease_text, doc_filename = the (filename full_size_upload),
                    doc_upload_time = isoformat_now example_env,
                    doc_file_size = length ?big \<rparr> []
      in case analyze_document_with_gemini example_env lease_text of
           (Inl h, calls) \<Rightarrow> (Inl h, ds', calls)
         | (Inr analysis, calls) \<Rightarrow>
             (Inr \<lparr> res_document_id = doc_id, res_filename = the (filename full_size_upload),
                    res_analysis = analysis, res_text_length = length lease_text \<rparr>,
              ds', calls))"
    using f5 f6 lease_extracted lease_long_enough by (intro upload_stores) simp_all
  with r have c5: "fst (upload_document example_env full_size_upload [])
       = Inr \<lparr> res_document_id = lease_doc_id, res_filename = ''lease.pdf'',
               res_analysis = \<lparr> summary = ''Lease'', key_clauses = [], obligations = [],
                                risks = [], unusual_terms = [] \<rparr>,
               res_text_length = 76 \<rparr>"
    by (simp add: lease_doc_id_eq lease_analysis full_size_upload_def lease_length)
  from f1 c1 f2 c2 f3 c3 x4 c4 r6 n6 c6 x7 c7 f5 f6 c5 show ?thesis
    by blast
qed

section \<open>The store after an upload\<close>

lemma upload_success:
  assumes "upload_document e file ds = (Inr res, ds', calls)"
  shows "\<exists>fname content t analysis.
           filename file = Some fname \<and> read file = Inr content
           \<and> extract_text_from_pdf e content = Inr t
           \<and> ds' = AList.update (make_doc_id e t)
                      \<lparr> doc_text = t, doc_filename = fname,
                        doc_upload_time = isoformat_now e, doc_file_size = length content \<rparr> ds
           \<and> res = \<lparr> res_document_id = make_doc_id e t, res_filename = fname,
                      res_analysis = analysis, res_text_length = length t \<rparr>"
  using assms
  by (auto simp: upload_document_def upload_try_def Let_def
        split: option.splits sum.splits if_splits prod.splits upload_exception.splits)

text \<open>
  C6. After a successful upload, \<open>get_document_info\<close> on the id returned finds the document:
  its filename is the one uploaded, its \<open>text_length\<close> is the length of the stored text (the
  text extracted from the file), and its \<open>text_preview\<close> is the first 200 characters of the
  stored text followed by "..." when the text has more than 200 characters, the stored
  text itself otherwise.
\<close>

theorem upload_round_trip:
  "upload_document e file ds = (Inr res, ds', calls) \<Longrightarrow>
     \<exists>doc info.
        map_of ds' (res_document_id res) = Some doc
        \<and> get_document_info ds' (res_document_id res) = Inr info
        \<and> filename file = Some (info_filename info)
        \<and> res_filename res = info_filename info
        \<and> info_text_length info = length (doc_text doc)
        \<and> res_text_length res = length (doc_text doc)
        \<and> (200 < length (doc_text doc)
             \<longrightarrow> info_text_preview info = take 200 (doc_text doc) @ ''...'')
        \<and> (length (doc_text doc) \<le> 200 \<longrightarrow> info_text_preview info = doc_text doc)
        \<and> (\<exists>content. read file = Inr content
               \<and> extract_text_from_pdf e content = Inr (doc_text doc))"
proof -
  assume "upload_document e file ds = (Inr res, ds', calls)"
  then obtain fname content t analysis where
    f: "filename file = Some fname" and r: "read file = Inr content"
    and x: "extract_text_from_pdf e content = Inr t"
    and s: "ds' = AList.update (make_doc_id e t)
                    \<lparr> doc_text = t, doc_filename = fname,
                      doc_upload_time = isoformat_now e, doc_file_size = length content \<rparr> ds"
    and v: "res = \<lparr> res_document_id = make_doc_id e t, res_filename = fname,
                     res_analysis = analysis, res_text_length = length t \<rparr>"
    using upload_success by blast
  let ?doc = "\<lparr> doc_text = t, doc_filename = fname,
                 doc_upload_time = isoformat_now e, doc_file_size = length content \<rparr>"
  let ?info = "\<lparr> info_document_id = make_doc_id e t, info_filename = fname,
                  info_upload_time = isoformat_now e, info_text_length = length t,
                  info_text_preview = (if 200 < length t then take 200 t @ ''...'' else t) \<rparr>"
  from s v have m: "map_of ds' (res_document_id res) = Some ?doc"
    by (simp add: update_conv')
  with v have g: "get_document_info ds' (res_document_id res) = Inr ?info"
    by (simp add: get_document_info_def)
  from m g f r x v show ?thesis
    by (intro exI [of _ ?doc] exI [of _ ?info]) simp
qed

lemma long_extracted:
  "extract_text_from_pdf (example_env \<lparr> pdf_reader := long_pdf_reader \<rparr>) content = Inr long_page"
  by (simp add: extract_text_from_pdf_eq long_pdf_reader_def concat_pages_def)
     (simp add: long_page_def str_simps)

lemma long_length: "length long_page = 232"
  by (simp add: long_page_def)

lemma long_doc_id_eq:
  "make_doc_id (example_env \<lparr> pdf_reader := long_pdf_reader \<rparr>) long_page = long_doc_id"
  by (simp add: make_doc_id_def example_env_def example_hash_def long_page_def long_doc_id_def)

theorem upload_round_trip_witness:
  "(\<exists>calls. upload_document example_env lease_upload []
       = (Inr \<lparr> res_document_id = lease_doc_id, res_filename = ''Lease.PDF'',
                res_analysis = \<lparr> summary = ''Lease'', key_clauses = [], obligations = [],
                                 risks = [], unusual_terms = [] \<rparr>,
                res_text_length = 76 \<rparr>,
          [(lease_doc_id, lease_document)], calls))
   \<and> get_document_info [(lease_doc_id, lease_document)] lease_doc_id
       = Inr \<lparr> info_document_id = lease_doc_id, info_filename = ''Lease.PDF'',
               info_upload_time = ''2024-01-01T12:00:00'', info_text_length = 76,
               info_text_preview = lease_text \<rparr>
   \<and> (\<exists>res ds' calls info.
         upload_document (example_env \<lparr> pdf_reader := long_pdf_reader \<rparr>) lease_upload []
           = (Inr res, ds', calls)
         \<and> res_document_id res = long_doc_id
         \<and> get_document_info ds' long_doc_id = Inr info
         \<and> info_filename info = ''Lease.PDF''
         \<and> info_text_length info = 232
         \<and> info_text_preview info = take 200 long_page @ ''...'')"
proof -
  let ?long = "example_env \<lparr> pdf_reader := long_pdf_reader \<rparr>"
  let ?res = "\<lparr> res_document_id = lease_doc_id, res_filename = ''Lease.PDF'',
                res_analysis = \<lparr> summary = ''Lease'', key_clauses = [], obligations = [],
                                 risks = [], unusual_terms = [] \<rparr>,
                res_text_length = 76 \<rparr>"
  have ok: "\<not> filename_rejected (filename lease_upload)"
    by (simp add: filename_rejected_def lease_upload_def str_simps)
  have rd: "read lease_upload = Inr [37, 80, 68, 70]"
    by (simp add: lease_upload_def)
  have u1: "upload_document example_env lease_upload []
              = (Inr ?res, [(lease_doc_id, lease_document)], [analysis_prompt lease_text])"
    by (subst upload_stores [OF ok rd _ _ lease_extracted lease_long_enough])
       (simp_all add: lease_doc_id_eq lease_analysis lease_length lease_upload_def
          lease_document_def example_now)
  from upload_round_trip [OF u1]
  obtain doc :: StoredDocument and info :: document_info where
    d1: "map_of [(lease_doc_id, lease_document)] lease_doc_id = Some doc"
    and i1: "get_document_info [(lease_doc_id, lease_document)] lease_doc_id = Inr info"
    and n1: "info_filename info = ''Lease.PDF''"
    and l1: "info_text_length info = length (doc_text doc)"
    and p1: "length (doc_text doc) \<le> 200 \<longrightarrow> info_text_preview info = doc_text doc"
    by auto
  from d1 have "doc = lease_document"
    by simp
  with i1 n1 l1 p1
  have c1: "get_document_info [(lease_doc_id, lease_document)] lease_doc_id
       = Inr \<lparr> info_document_id = lease_doc_id, info_filename = ''Lease.PDF'',
               info_upload_time = ''2024-01-01T12:00:00'', info_text_length = 76,
               info_text_preview = lease_text \<rparr>"
    by (simp add: get_document_info_def lease_document_def lease_length)
  have k: "GEMINI_API_KEY ?long \<noteq> []"
    by (simp add: example_env_def)
  have len: "50 \<le> length (strip long_page)"
    by (simp add: long_page_def str_simps)
  obtain a cs where an: "analyze_document_with_gemini ?long long_page = (Inr a, cs)"
    using k
    by (cases "generate_content ?long (analysis_prompt long_page)")
       (simp_all add: analyze_with_key)
  let ?res2 = "\<lparr> res_document_id = long_doc_id, res_filename = ''Lease.PDF'',
                 res_analysis = a, res_text_length = 232 \<rparr>"
  let ?ds2 = "[(long_doc_id,
                \<lparr> doc_text = long_page, doc_filename = ''Lease.PDF'',
                  doc_upload_time = isoformat_now ?long, doc_file_size = 4 \<rparr>)]"
  have u2: "upload_document ?long lease_upload [] = (Inr ?res2, ?ds2, cs)"
    by (subst upload_stores [OF ok rd _ _ long_extracted len])
       (simp_all add: an long_doc_id_eq long_length lease_upload_def)
  from upload_round_trip [OF u2]
  obtain doc2 :: StoredDocument and info2 :: document_info where
    i2': "get_document_info ?ds2 (res_document_id ?res2) = Inr info2"
    and n2: "filename lease_upload = Some (info_filename info2)"
    and l2: "info_text_length info2 = length (doc_text doc2)"
    and p2: "200 < length (doc_text doc2)
               \<longrightarrow> info_text_preview info2 = take 200 (doc_text doc2) @ ''...''"
    and x2: "\<exists>content. read lease_upload = Inr content
               \<and> extract_text_from_pdf ?long content = Inr (doc_text doc2)"
    by blast
  from i2' have i2: "get_document_info ?ds2 long_doc_id = Inr info2"
    by simp
  from x2 have t2: "doc_text doc2 = long_page"
    by (auto simp: long_extracted)
  from n2 have f2: "info_filename info2 = ''Lease.PDF''"
    by (simp add: lease_upload_def)
  from l2 p2 t2 have "info_text_length info2 = 232"
    and "info_text_preview info2 = take 200 long_page @ ''...''"
    by (simp_all add: long_length)
  with u2 i2 f2 have c2: "\<exists>res ds' calls info.
         upload_document ?long lease_upload [] = (Inr res, ds', calls)
         \<and> res_document_id res = long_doc_id
         \<and> get_document_info ds' long_doc_id = Inr info
         \<and> info_filename info = ''Lease.PDF''
         \<and> info_text_length info = 232
         \<and> info_text_preview info = take 200 long_page @ ''...''"
    by (intro exI [of _ ?res2] exI [of _ ?ds2] exI [of _ cs] exI [of _ info2]) simp
  from u1 c1 c2 show ?thesis
    by blast
qed

lemma cleanup_removes: "map_of (cleanup (Some d) ds) d = None"
  by (simp add: cleanup_def delete_conv')

text \<open>
  C3 fails on the code. Started without \<open>GEMINI_API_KEY\<close>, a valid upload is stored, the
  analysis raises HTTPException 500, \<open>except HTTPException: raise\<close> passes it on without the
  clean-up of the \<open>except Exception\<close> branch, and the store keeps the document under the id
  generated during the request.
\<close>

theorem upload_error_keeps_document:
  "upload_document no_key_env lease_upload []
     = (Inl (HTTPException 500
          ''Gemini API key not configured. Please set GEMINI_API_KEY in your environment variables.''),
        [(lease_doc_id, lease_document)], [])
   \<and> map_of [(lease_doc_id, lease_document)] lease_doc_id = Some lease_document"
proof -
  have ok: "\<not> filename_rejected (filename lease_upload)"
    by (simp add: filename_rejected_def lease_upload_def str_simps)
  have rd: "read lease_upload = Inr [37, 80, 68, 70]"
    by (simp add: lease_upload_def)
  have x: "extract_text_from_pdf no_key_env [37, 80, 68, 70] = Inr lease_text"
    using lease_extracted [of "[37, 80, 68, 70]"]
    by (simp add: extract_text_from_pdf_def no_key_env_def)
  have id: "make_doc_id no_key_env lease_text = lease_doc_id"
    using lease_doc_id_eq by (simp add: make_doc_id_def no_key_env_def)
  have k: "GEMINI_API_KEY no_key_env = []"
    by (simp add: no_key_env_def)
  have t: "isoformat_now no_key_env = ''2024-01-01T12:00:00''"
    by (simp add: no_key_env_def example_env_def)
  show ?thesis
    by (subst upload_stores [OF ok rd _ _ x lease_long_enough])
       (simp_all add: id analyze_without_key k t lease_upload_def lease_document_def)
qed

section \<open>The replies of \<open>chat_with_document\<close> that need no model\<close>

lemma chat_without_key:
  "GEMINI_API_KEY e = [] \<Longrightarrow>
     chat_with_document e chat_request ds
       = (Inl (HTTPException 500 ''Gemini API key not configured''), [])"
  by (simp add: chat_with_document_def)

lemma chat_with_id:
  "GEMINI_API_KEY e \<noteq> [] \<Longrightarrow> document_id chat_request = Some d \<Longrightarrow> d \<noteq> [] \<Longrightarrow>
     chat_with_document e chat_request ds =
       (if ds = []
        then (Inr \<lparr> response = storage_unavailable_reply, timestamp = isoformat_now e \<rparr>, [])
        else case map_of ds d of
               None \<Rightarrow> (Inr \<lparr> response = not_found_reply, timestamp = isoformat_now e \<rparr>, [])
             | Some doc_data \<Rightarrow>
                 (case chat_generate e (doc_text doc_data) (message chat_request) of
                    (r, calls) \<Rightarrow> (Inr r, calls)))"
  by (simp add: chat_with_document_def truthy_def)

lemma chat_without_document:
  "GEMINI_API_KEY e \<noteq> [] \<Longrightarrow> truthy (document_id chat_request) = None \<Longrightarrow>
     truthy (document_text chat_request) = None \<Longrightarrow>
     chat_with_document e chat_request ds
       = (Inr \<lparr> response = upload_first_reply, timestamp = isoformat_now e \<rparr>, [])"
  by (simp add: chat_with_document_def)

lemma not_found_reply_parts:
  "not_found_reply =
     ''I '' @ ''couldn't find the document''
       @ '' you're referring to. Please try uploading your document again.''"
  by (simp add: not_found_reply_def)

lemma replies_differ: "storage_unavailable_reply \<noteq> not_found_reply"
  by (simp add: storage_unavailable_reply_def not_found_reply_def)

text \<open>
  C7, as the code has it. With \<open>GEMINI_API_KEY\<close> configured, a chat request that carries a
  non-empty \<open>document_id\<close> which is not a key of a non-empty store is answered with HTTP 200
  and the reply "I couldn't find the document you're referring to. Please try uploading
  your document again.", and no prompt is sent to the model. When the store holds no
  document at all, the reply is another one ("The document storage system is not
  available. ..."), also with HTTP 200 and no prompt sent. With the key unset every chat
  request is answered with status 500.
\<close>

theorem chat_unknown_document:
  "(GEMINI_API_KEY e \<noteq> [] \<and> document_id chat_request = Some d \<and> d \<noteq> []
      \<and> ds \<noteq> [] \<and> map_of ds d = None
      \<longrightarrow> chat_with_document e chat_request ds
            = (Inr \<lparr> response = not_found_reply, timestamp = isoformat_now e \<rparr>, []))
   \<and> (GEMINI_API_KEY e \<noteq> [] \<and> document_id chat_request = Some d \<and> d \<noteq> [] \<and> ds = []
      \<longrightarrow> chat_with_document e chat_request ds
            = (Inr \<lparr> response = storage_unavailable_reply, timestamp = isoformat_now e \<rparr>, []))
   \<and> (GEMINI_API_KEY e = []
      \<longrightarrow> chat_with_document e chat_request ds
            = (Inl (HTTPException 500 ''Gemini API key not configured''), []))
   \<and> sublist ''couldn't find the document'' not_found_reply
   \<and> storage_unavailable_reply \<noteq> not_found_reply"
proof -
  have unknown: "chat_with_document e chat_request ds
            = (Inr \<lparr> response = not_found_reply, timestamp = isoformat_now e \<rparr>, [])"
    if "GEMINI_API_KEY e \<noteq> [] \<and> document_id chat_request = Some d \<and> d \<noteq> []
          \<and> ds \<noteq> [] \<and> map_of ds d = None"
    using that by (simp add: chat_with_id)
  have no_store: "chat_with_document e chat_request ds
            = (Inr \<lparr> response = storage_unavailable_reply, timestamp = isoformat_now e \<rparr>, [])"
    if "GEMINI_API_KEY e \<noteq> [] \<and> document_id chat_request = Some d \<and> d \<noteq> [] \<and> ds = []"
    using that by (simp add: chat_with_id)
  have no_key: "chat_with_document e chat_request ds
            = (Inl (HTTPException 500 ''Gemini API key not configured''), [])"
    if "GEMINI_API_KEY e = []"
    using that by (rule chat_without_key)
  have says: "sublist ''couldn't find the document'' not_found_reply"
    unfolding not_found_reply_parts by (rule sublist_appendI)
  from unknown no_store no_key says replies_differ show ?thesis
    by blast
qed

theorem chat_unknown_document_witness:
  "map_of [(lease_doc_id, lease_document)] ''doc_20240101_120000_1'' = None
   \<and> chat_with_document example_env
        (rent_question \<lparr> document_id := Some ''doc_20240101_120000_1'' \<rparr>)
        [(lease_doc_id, lease_document)]
       = (Inr \<lparr> response = not_found_reply, timestamp = ''2024-01-01T12:00:00'' \<rparr>, [])
   \<and> chat_with_document example_env
        (rent_question \<lparr> document_id := Some ''doc_20240101_120000_1'' \<rparr>) []
       = (Inr \<lparr> response = storage_unavailable_reply, timestamp = ''2024-01-01T12:00:00'' \<rparr>, [])
   \<and> chat_with_document no_key_env
        (rent_question \<lparr> document_id := Some ''doc_20240101_120000_1'' \<rparr>)
        [(lease_doc_id, lease_document)]
       = (Inl (HTTPException 500 ''Gemini API key not configured''), [])"
proof -
  let ?d = "''doc_20240101_120000_1''"
  let ?q = "rent_question \<lparr> document_id := Some ?d \<rparr>"
  let ?ds = "[(lease_doc_id, lease_document)]"
  have k1: "GEMINI_API_KEY example_env \<noteq> []"
    by (simp add: example_env_def)
  have k2: "GEMINI_API_KEY no_key_env = []"
    by (simp add: no_key_env_def)
  have q: "document_id ?q = Some ?d"
    by simp
  have d: "?d \<noteq> []"
    by simp
  have m: "map_of ?ds ?d = None"
    by (simp add: lease_doc_id_def)
  have s: "?ds \<noteq> []"
    by simp
  note found = chat_unknown_document [of example_env ?q ?d ?ds]
  note empty = chat_unknown_document [of example_env ?q ?d "[]"]
  note unset = chat_unknown_document [of no_key_env ?q ?d ?ds]
  from found k1 q d m s
  have c1: "chat_with_document example_env ?q ?ds
              = (Inr \<lparr> response = not_found_reply, timestamp = isoformat_now example_env \<rparr>, [])"
    by blast
  from empty k1 q d
  have c2: "chat_with_document example_env ?q []
              = (Inr \<lparr> response = storage_unavailable_reply,
                       timestamp = isoformat_now example_env \<rparr>, [])"
    by blast
  from unset k2
  have c3: "chat_with_document no_key_env ?q ?ds
              = (Inl (HTTPException 500 ''Gemini API key not configured''), [])"
    by blast
  from m c1 c2 c3 show ?thesis
    by (simp add: example_now)
qed

text \<open>
  C7, as the specification states it, fails on a store that holds no document: the request
  carries an id that is not a key of the store, and the reply is the one about the storage
  system, which does not say that the document could not be found. Started without
  \<open>GEMINI_API_KEY\<close>, the same request gets status 500.
\<close>

theorem chat_unknown_document_empty_store:
  "map_of [] ''doc_20240101_120000_1'' = (None :: StoredDocument option)
   \<and> chat_with_document example_env
        \<lparr> message = ''When is the rent due?'', document_id = Some ''doc_20240101_120000_1'',
          document_text = None \<rparr> []
       = (Inr \<lparr> response =
                  ''The document storage system is not available. Please try uploading your document again.'',
                timestamp = ''2024-01-01T12:00:00'' \<rparr>, [])
   \<and> chat_with_document no_key_env
        \<lparr> message = ''When is the rent due?'', document_id = Some ''doc_20240101_120000_1'',
          document_text = None \<rparr> []
       = (Inl (HTTPException 500 ''Gemini API key not configured''), [])"
  by (simp add: chat_with_document_def truthy_def storage_unavailable_reply_def
        no_key_env_def example_env_def)

text \<open>
  C10, as the code has it. A chat request with no \<open>document_id\<close> and the empty string as
  \<open>document_text\<close> is answered as the same request with no \<open>document_text\<close> at all, and no
  prompt is sent to the model. With \<open>GEMINI_API_KEY\<close> configured the answer is HTTP 200 with
  the reply "Please upload a document first before asking questions."; with the key unset
  it is status 500, as for every chat request.
\<close>

theorem chat_empty_document_text:
  "(document_id chat_request = None \<and> document_text chat_request = Some []
      \<longrightarrow> chat_with_document e chat_request ds
            = chat_with_document e (chat_request \<lparr> document_text := None \<rparr>) ds
          \<and> snd (chat_with_document e chat_request ds) = [])
   \<and> (GEMINI_API_KEY e \<noteq> [] \<and> document_id chat_request = None
        \<and> document_text chat_request = Some []
      \<longrightarrow> chat_with_document e chat_request ds
            = (Inr \<lparr> response = upload_first_reply, timestamp = isoformat_now e \<rparr>, []))
   \<and> (GEMINI_API_KEY e = [] \<and> document_id chat_request = None
        \<and> document_text chat_request = Some []
      \<longrightarrow> chat_with_document e chat_request ds
            = (Inl (HTTPException 500 ''Gemini API key not configured''), []))
   \<and> upload_first_reply = ''Please upload a document first before asking questions.''"
proof -
  have same: "chat_with_document e chat_request ds
                = chat_with_document e (chat_request \<lparr> document_text := None \<rparr>) ds
              \<and> snd (chat_with_document e chat_request ds) = []"
    if "document_id chat_request = None \<and> document_text chat_request = Some []"
    using that by (simp add: chat_with_document_def truthy_def)
  have reply: "chat_with_document e chat_request ds
                = (Inr \<lparr> response = upload_first_reply, timestamp = isoformat_now e \<rparr>, [])"
    if "GEMINI_API_KEY e \<noteq> [] \<and> document_id chat_request = None
          \<and> document_text chat_request = Some []"
    using that by (simp add: chat_without_document truthy_def)
  have no_key: "chat_with_document e chat_request ds
                = (Inl (HTTPException 500 ''Gemini API key not configured''), [])"
    if "GEMINI_API_KEY e = [] \<and> document_id chat_request = None
          \<and> document_text chat_request = Some []"
    using that by (simp add: chat_without_key)
  have words: "upload_first_reply = ''Please upload a document first before asking questions.''"
    by (simp add: upload_first_reply_def)
  from same reply no_key words show ?thesis
    by blast
qed

theorem chat_empty_document_text_witness:
  "chat_with_document example_env (rent_question \<lparr> document_text := Some [] \<rparr>)
        [(lease_doc_id, lease_document)]
       = (Inr \<lparr> response = ''Please upload a document first before asking questions.'',
                timestamp = ''2024-01-01T12:00:00'' \<rparr>, [])
   \<and> chat_with_document example_env rent_question [(lease_doc_id, lease_document)]
       = (Inr \<lparr> response = ''Please upload a document first before asking questions.'',
                timestamp = ''2024-01-01T12:00:00'' \<rparr>, [])
   \<and> chat_with_document no_key_env (rent_question \<lparr> document_text := Some [] \<rparr>)
        [(lease_doc_id, lease_document)]
       = (Inl (HTTPException 500 ''Gemini API key not configured''), [])"
proof -
  let ?q = "rent_question \<lparr> document_text := Some [] \<rparr>"
  let ?ds = "[(lease_doc_id, lease_document)]"
  have k1: "GEMINI_API_KEY example_env \<noteq> []"
    by (simp add: example_env_def)
  have k2: "GEMINI_API_KEY no_key_env = []"
    by (simp add: no_key_env_def)
  have q: "document_id ?q = None \<and> document_text ?q = Some []"
    by (simp add: rent_question_def)
  have n: "?q \<lparr> document_text := None \<rparr> = rent_question"
    by (simp add: rent_question_def)
  note configured = chat_empty_document_text [of ?q example_env ?ds]
  note unset = chat_empty_document_text [of ?q no_key_env ?ds]
  from configured k1 q
  have c1: "chat_with_document example_env ?q ?ds
              = (Inr \<lparr> response = upload_first_reply, timestamp = isoformat_now example_env \<rparr>, [])"
    by blast
  from configured q
  have "chat_with_document example_env ?q ?ds
          = chat_with_document example_env (?q \<lparr> document_text := None \<rparr>) ?ds"
    by blast
  with c1 n
  have c2: "chat_with_document example_env rent_question ?ds
              = (Inr \<lparr> response = upload_first_reply, timestamp = isoformat_now example_env \<rparr>, [])"
    by simp
  from unset k2 q
  have c3: "chat_with_document no_key_env ?q ?ds
              = (Inl (HTTPException 500 ''Gemini API key not configured''), [])"
    by blast
  from configured have r: "upload_first_reply = ''Please upload a document first before asking questions.''"
    by blast
  from c1 c2 c3 show ?thesis
    by (simp add: example_now r)
qed

text \<open>
  C10, as the specification states it, fails when the process was started without
  \<open>GEMINI_API_KEY\<close>: the request with an empty \<open>document_text\<close> gets status 500, not the
  reply that asks for an upload.
\<close>

theorem chat_empty_document_text_without_key:
  "chat_with_document no_key_env
     \<lparr> message = ''When is the rent due?'', document_id = None, document_text = Some [] \<rparr> []
     = (Inl (HTTPException 500 ''Gemini API key not configured''), [])"
  by (simp add: chat_with_document_def no_key_env_def)

end
